theory Spec2Isabelle
  imports Complex_Main
begin

section \<open>JavaScript values and thrown values\<close>

text \<open>
  The configuration is whatever \<^verbatim>\<open>JSON.parse\<close> returns: the cast \<^verbatim>\<open>as Config\<close> checks
  nothing at run time, so a field of the configuration is any JSON value. A property that
  is absent reads as \<^verbatim>\<open>undefined\<close>, which is \<open>None\<close> here.
\<close>

datatype jsval =
    JNull
  | JBool bool
  | JNum rat
  | JStr string
  | JArr "jsval list"
  | JObj "(string \<times> jsval) list"

text \<open>What a \<^verbatim>\<open>throw\<close> carries: an \<^verbatim>\<open>Error\<close> instance with its message, the
  \<^verbatim>\<open>ServerResponse\<close> object that \<^verbatim>\<open>createSDK\<close> throws (status code and status message), or
  any other value.\<close>

datatype thrown =
    Error string
  | ServerResponse nat string
  | OtherThrown jsval

text \<open>JavaScript truthiness, as \<^verbatim>\<open>!x\<close> tests it.\<close>

fun truthy :: "jsval \<Rightarrow> bool" where
  "truthy JNull = False"
| "truthy (JBool b) = b"
| "truthy (JNum r) = (r \<noteq> 0)"
| "truthy (JStr s) = (s \<noteq> [])"
| "truthy (JArr xs) = True"
| "truthy (JObj kvs) = True"

fun truthy_prop :: "jsval option \<Rightarrow> bool" where
  "truthy_prop None = False"
| "truthy_prop (Some v) = truthy v"

text \<open>\<^verbatim>\<open>error instanceof Error ? error.message : fallback\<close>\<close>

fun message_or :: "string \<Rightarrow> thrown \<Rightarrow> string" where
  "message_or fallback (Error m) = m"
| "message_or fallback (ServerResponse c m) = fallback"
| "message_or fallback (OtherThrown v) = fallback"

section \<open>The data of \<^verbatim>\<open>index.ts\<close>\<close>

record Config =
  WALLET_PRIVATE_KEY :: "jsval option"
  INFURA_API_KEY :: "jsval option"

record URL =
  searchParams :: "(string \<times> string) list"

record Wallet =
  address :: string

record FeeData =
  lastBaseFeePerGas :: "nat option"
  maxFeePerGas :: "nat option"
  maxPriorityFeePerGas :: "nat option"
  gasPrice :: "nat option"

text \<open>
  The \<^verbatim>\<open>getFeeData\<close> method of a provider object is either the one of the library, which
  asks the node, or the closure that \<^verbatim>\<open>createSDK\<close> assigns, which holds the gas price it
  captured.
\<close>

datatype fee_method = Original | Legacy "nat option"

record JsonRpcProvider =
  connection_url :: string
  chainId :: int
  getFeeData :: fee_method

text \<open>
  The library and language operations the code calls. They are not code of this
  repository, so they are taken as parameters: every theorem below holds for each
  behaviour of them. \<open>Inl\<close> is a throw.
  \<^item> \<open>URL_new\<close>: \<^verbatim>\<open>new URL(url)\<close>, with the query parameters in order;
  \<^item> \<open>base64_utf8\<close>: \<^verbatim>\<open>Buffer.from(x, 'base64').toString('utf-8')\<close>, which never throws;
  \<^item> \<open>JSON_parse\<close>, \<open>JSON_stringify\<close>;
  \<^item> \<open>ToString\<close>: the conversion a template literal applies to a value that is not a
    string (it throws for an object that has no callable \<^verbatim>\<open>toString\<close>);
  \<^item> \<open>Wallet_new\<close>: \<^verbatim>\<open>new Wallet(privateKey, provider)\<close>.
\<close>

record runtime =
  URL_new :: "string \<Rightarrow> thrown + URL"
  base64_utf8 :: "string \<Rightarrow> string"
  JSON_parse :: "string \<Rightarrow> thrown + jsval"
  JSON_stringify :: "jsval \<Rightarrow> string"
  ToString :: "jsval \<Rightarrow> thrown + string"
  Wallet_new :: "jsval option \<Rightarrow> thrown + Wallet"

text \<open>What the handlers do to the outside, in order.\<close>

datatype effect =
    ConsoleLog string
  | ConsoleError string string
  | ConsoleErrorWith string thrown
  | SetTimeout int
  | ExchangeCall string string

text \<open>
  The module's variables \<^verbatim>\<open>globalConfig\<close> and \<^verbatim>\<open>PROVIDERS\<close>. A provider is an object with
  identity and a method that is reassigned, so the registry holds handles into a store
  of provider objects; \<^verbatim>\<open>new\<close> appends to the store. \<open>waited\<close> is the time in milliseconds
  for which handlers have been held back by timers.
\<close>

record state =
  globalConfig :: Config
  PROVIDERS :: "(int \<times> nat) list"
  heap :: "JsonRpcProvider list"
  effects :: "effect list"
  waited :: int

definition init_state :: state where
  "init_state =
     \<lparr>globalConfig = \<lparr>WALLET_PRIVATE_KEY = None, INFURA_API_KEY = None\<rparr>,
      PROVIDERS = [], heap = [], effects = [], waited = 0\<rparr>"

definition emit :: "effect \<Rightarrow> state \<Rightarrow> state" where
  "emit e s = s\<lparr>effects := effects s @ [e]\<rparr>"

text \<open>
  What \<^verbatim>\<open>await\<close> is given after a timer of \<open>d\<close> milliseconds is set. The object that
  \<^verbatim>\<open>setTimeout\<close> returns is no promise, and \<^verbatim>\<open>await\<close> on it continues at once, with the
  timer still to fire; a promise that the timer resolves holds the handler back until
  the timer fires.
\<close>

datatype awaited = TimeoutObject int | TimeoutPromise int

fun hold :: "awaited \<Rightarrow> int" where
  "hold (TimeoutObject d) = 0"
| "hold (TimeoutPromise d) = d"

definition await_on :: "awaited \<Rightarrow> state \<Rightarrow> state" where
  "await_on v s = s\<lparr>waited := waited s + hold v\<rparr>"

text \<open>The calls to the exchange client among the effects: method and pair.\<close>

fun exchange_calls :: "effect list \<Rightarrow> (string \<times> string) list" where
  "exchange_calls [] = []"
| "exchange_calls (ExchangeCall m pair # es) = (m, pair) # exchange_calls es"
| "exchange_calls (e # es) = exchange_calls es"

definition DEFAULT_NETWORK_ID :: int where
  "DEFAULT_NETWORK_ID = 84532"

definition DEFAULT_BLOCK_TIME :: int where
  "DEFAULT_BLOCK_TIME = 2000"

definition BLOCK_TIME :: "(int \<times> int) list" where
  "BLOCK_TIME = [(84532, 2000), (8453, 2000), (137, 2000), (690, 2000)]"

section \<open>parseConfigFromURL\<close>

text \<open>
  Reading the two fields of the parsed value. Reading a property of \<^verbatim>\<open>null\<close> throws a
  TypeError; a number, a boolean, a string or an array has neither property; an object
  has the properties the parser gave it.
\<close>

fun read_config :: "jsval \<Rightarrow> thrown + Config" where
  "read_config JNull = Inl (Error ''Cannot read properties of null'')"
| "read_config (JObj kvs) =
     Inr \<lparr>WALLET_PRIVATE_KEY = map_of kvs ''WALLET_PRIVATE_KEY'',
          INFURA_API_KEY = map_of kvs ''INFURA_API_KEY''\<rparr>"
| "read_config v = Inr \<lparr>WALLET_PRIVATE_KEY = None, INFURA_API_KEY = None\<rparr>"

text \<open>The body of the \<^verbatim>\<open>try\<close> block.\<close>

definition parse_try :: "runtime \<Rightarrow> string \<Rightarrow> thrown + Config option" where
  "parse_try rt src =
     (case URL_new rt src of
        Inl e \<Rightarrow> Inl e
      | Inr urlObj \<Rightarrow>
          (case map_of (searchParams urlObj) ''config'' of
             None \<Rightarrow> Inr None
           | Some configParam \<Rightarrow>
               if configParam = [] then Inr None
               else
                 (case JSON_parse rt (base64_utf8 rt configParam) of
                    Inl e \<Rightarrow> Inl e
                  | Inr v \<Rightarrow>
                      (case read_config v of
                         Inl e \<Rightarrow> Inl e
                       | Inr config \<Rightarrow>
                           if \<not> truthy_prop (WALLET_PRIVATE_KEY config)
                              \<or> \<not> truthy_prop (INFURA_API_KEY config)
                           then Inl (Error ''Missing required config fields: WALLET_PRIVATE_KEY, INFURA_API_KEY'')
                           else Inr (Some config)))))"

text \<open>The whole function: the \<^verbatim>\<open>catch\<close> logs and returns \<^verbatim>\<open>null\<close>.\<close>

definition parseConfigFromURL ::
  "runtime \<Rightarrow> string \<Rightarrow> state \<Rightarrow> (thrown + Config option) \<times> state" where
  "parseConfigFromURL rt src s =
     (case parse_try rt src of
        Inl e \<Rightarrow> (Inr None, emit (ConsoleErrorWith ''Failed to parse config from URL:'' e) s)
      | Inr r \<Rightarrow> (Inr r, s))"

section \<open>createProviders and updateConfigFromURL\<close>

text \<open>\<^verbatim>\<open>`...${v}`\<close>: a string is spliced as it is, another value is converted first.\<close>

fun template :: "runtime \<Rightarrow> jsval option \<Rightarrow> thrown + string" where
  "template rt (Some (JStr s)) = Inr s"
| "template rt (Some v) = ToString rt v"
| "template rt None = Inr ''undefined''"

text \<open>
  The object literal evaluates its four \<^verbatim>\<open>new providers.JsonRpcProvider(url, id)\<close> in
  order; the constructor only stores its arguments. The first template literal throws
  before anything is constructed, or none does.
\<close>

definition createProviders ::
  "runtime \<Rightarrow> Config \<Rightarrow> state \<Rightarrow> (thrown + (int \<times> nat) list) \<times> state" where
  "createProviders rt config s =
     (if \<not> truthy_prop (INFURA_API_KEY config)
      then (Inl (Error ''INFURA_API_KEY is required in config''), s)
      else
        (case template rt (INFURA_API_KEY config) of
           Inl e \<Rightarrow> (Inl e, s)
         | Inr k \<Rightarrow>
             (let n = length (heap s);
                  fresh =
                    [\<lparr>connection_url = ''https://base-sepolia.infura.io/v3/'' @ k,
                      chainId = DEFAULT_NETWORK_ID, getFeeData = Original\<rparr>,
                     \<lparr>connection_url = ''https://base-mainnet.infura.io/v3/'' @ k,
                      chainId = 8453, getFeeData = Original\<rparr>,
                     \<lparr>connection_url = ''https://polygon-mainnet.infura.io/v3/'' @ k,
                      chainId = 137, getFeeData = Original\<rparr>,
                     \<lparr>connection_url = ''https://rpc.redstonechain.com'',
                      chainId = 690, getFeeData = Original\<rparr>]
              in (Inr [(DEFAULT_NETWORK_ID, n), (8453, n + 1), (137, n + 2), (690, n + 3)],
                  s\<lparr>heap := heap s @ fresh\<rparr>))))"

definition updateConfigFromURL ::
  "runtime \<Rightarrow> string \<Rightarrow> state \<Rightarrow> (thrown + unit) \<times> state" where
  "updateConfigFromURL rt src s =
     (case parseConfigFromURL rt src s of
        (Inl e, s1) \<Rightarrow> (Inl e, s1)
      | (Inr None, s1) \<Rightarrow>
          (Inr (), emit (ConsoleLog ''Failed to parse config from URL - configuration required'') s1)
      | (Inr (Some urlConfig), s1) \<Rightarrow>
          (let s2 = (emit (ConsoleLog ''Config parsed from URL successfully'') s1)
                      \<lparr>globalConfig := urlConfig\<rparr>
           in case createProviders rt (globalConfig s2) s2 of
                (Inl e, s3) \<Rightarrow>
                  (Inr (),
                   emit (ConsoleError ''Failed to initialize providers:''
                           (message_or ''Unknown error'' e)) s3)
              | (Inr ps, s3) \<Rightarrow>
                  (Inr (),
                   emit (ConsoleLog ''Providers initialized successfully'')
                     (s3\<lparr>PROVIDERS := ps\<rparr>))))"

text \<open>The tool \<^verbatim>\<open>configure_from_url\<close>.\<close>

definition configure_from_url ::
  "runtime \<Rightarrow> string \<Rightarrow> state \<Rightarrow> (thrown + string) \<times> state" where
  "configure_from_url rt src s =
     (case updateConfigFromURL rt src s of
        (Inl e, s1) \<Rightarrow> (Inl e, s1)
      | (Inr u, s1) \<Rightarrow>
          (Inr (JSON_stringify rt
                  (JObj [(''message'', JStr ''Configuration updated successfully'')])),
           s1))"

section \<open>createSDK\<close>

text \<open>
  A network id is a JavaScript number; it is an integer here, since a number that is not
  an integer is the key of no entry of \<^verbatim>\<open>PROVIDERS\<close> or \<^verbatim>\<open>BLOCK_TIME\<close>, like an integer that
  is not listed. \<open>show_int\<close> is the decimal text a template literal gives it; from
  \<open>10\<^sup>2\<^sup>1\<close> on the literal gives an exponent form, which is not modelled.
\<close>

fun digits :: "nat \<Rightarrow> string" where
  "digits n =
     (if n < 10 then [''0123456789'' ! n]
      else digits (n div 10) @ [''0123456789'' ! (n mod 10)])"

declare digits.simps [simp del]

definition show_int :: "int \<Rightarrow> string" where
  "show_int i = (if i < 0 then ''-'' @ digits (nat (- i)) else digits (nat i))"

text \<open>
  The outcome of the promise that a fee method returns. \<open>node\<close> is what the node answers
  to the library's method; the closure installed by \<^verbatim>\<open>createSDK\<close> does not ask the node.
\<close>

definition invoke_getFeeData :: "fee_method \<Rightarrow> (thrown + FeeData) \<Rightarrow> thrown + FeeData" where
  "invoke_getFeeData m node =
     (case m of
        Original \<Rightarrow> node
      | Legacy g \<Rightarrow>
          Inr \<lparr>lastBaseFeePerGas = None, maxFeePerGas = None,
               maxPriorityFeePerGas = None, gasPrice = g\<rparr>)"

text \<open>Calling \<^verbatim>\<open>provider.getFeeData()\<close> and taking the outcome.\<close>

definition call_getFeeData :: "(thrown + FeeData) \<Rightarrow> JsonRpcProvider \<Rightarrow> thrown + FeeData" where
  "call_getFeeData node p = invoke_getFeeData (getFeeData p) node"

text \<open>The class \<^verbatim>\<open>MockBitlySDK\<close>: its fields, and the two setters.\<close>

record MockBitlySDK =
  networkId :: int
  provider :: "nat option"
  signer :: "Wallet option"

definition setSigner :: "Wallet \<Rightarrow> MockBitlySDK \<Rightarrow> MockBitlySDK" where
  "setSigner w sdk = sdk\<lparr>signer := Some w\<rparr>"

definition setProvider :: "nat option \<Rightarrow> MockBitlySDK \<Rightarrow> MockBitlySDK" where
  "setProvider p sdk = sdk\<lparr>provider := p\<rparr>"

text \<open>
  \<^verbatim>\<open>createSDK\<close> is suspended at \<^verbatim>\<open>await provider.getFeeData()\<close>, and other handlers run
  before it continues. Up to there it tests the configuration, looks the provider up and
  calls the provider's fee method; the suspended call keeps the network id, the provider
  object and the method it called.
\<close>

record suspended_call =
  call_networkId :: int
  call_provider :: nat
  call_method :: fee_method

definition createSDK_enter :: "int \<Rightarrow> state \<Rightarrow> thrown + suspended_call" where
  "createSDK_enter nid s =
     (if \<not> truthy_prop (WALLET_PRIVATE_KEY (globalConfig s))
         \<or> \<not> truthy_prop (INFURA_API_KEY (globalConfig s))
      then Inl (Error ''Configuration not provided. Use configure_from_url tool or set MCP_SERVER_URL with base64 encoded config parameter.'')
      else
        (case map_of (PROVIDERS s) nid of
           None \<Rightarrow>
             Inl (Error (''Provider not available for network '' @ show_int nid
                         @ ''. Configuration may not be properly set.''))
         | Some h \<Rightarrow>
             Inr \<lparr>call_networkId = nid, call_provider = h,
                  call_method = getFeeData (heap s ! h)\<rparr>))"

text \<open>
  The rest of \<^verbatim>\<open>createSDK\<close>, in the state it finds when it continues: it assigns the
  closure to the provider object it holds, and builds the wallet from the
  \<^verbatim>\<open>globalConfig\<close> of that moment.
\<close>

definition createSDK_resume ::
  "runtime \<Rightarrow> (thrown + FeeData) \<Rightarrow> suspended_call \<Rightarrow> state
     \<Rightarrow> (thrown + MockBitlySDK) \<times> state" where
  "createSDK_resume rt node c s =
     (case invoke_getFeeData (call_method c) node of
        Inl e \<Rightarrow> (Inl e, s)
      | Inr feeData \<Rightarrow>
          (let h = call_provider c;
               s1 = s\<lparr>heap := (heap s)
                        [h := (heap s ! h)\<lparr>getFeeData := Legacy (gasPrice feeData)\<rparr>]\<rparr>;
               sdk = \<lparr>networkId = call_networkId c, provider = Some h, signer = None\<rparr>
           in case Wallet_new rt (WALLET_PRIVATE_KEY (globalConfig s1)) of
                Inl e \<Rightarrow>
                  (Inl (ServerResponse 401
                          (''Unauthorized - ''
                           @ message_or ''Invalid wallet configuration'' e)), s1)
              | Inr w \<Rightarrow> (Inr (setSigner w sdk), s1)))"

text \<open>A call of \<^verbatim>\<open>createSDK\<close> during which no other handler runs.\<close>

definition createSDK ::
  "runtime \<Rightarrow> (thrown + FeeData) \<Rightarrow> int \<Rightarrow> state \<Rightarrow> (thrown + MockBitlySDK) \<times> state" where
  "createSDK rt node nid s =
     (case createSDK_enter nid s of
        Inl e \<Rightarrow> (Inl e, s)
      | Inr c \<Rightarrow> createSDK_resume rt node c s)"

section \<open>The exchange client and the state-mutating tools\<close>

datatype direction = BUY | SELL

text \<open>
  The methods of \<^verbatim>\<open>sdk.exchange\<close> and \<^verbatim>\<open>sdk.prices\<close> that the state-mutating tools call.
  The handlers are written against this interface, so it is a parameter; \<open>Inl\<close> is a
  rejected promise.
\<close>

record exchange =
  placeLimitOrder :: "MockBitlySDK \<Rightarrow> string \<Rightarrow> direction \<Rightarrow> rat \<Rightarrow> rat \<Rightarrow> thrown + jsval"
  placeMarketOrder ::
    "MockBitlySDK \<Rightarrow> string \<Rightarrow> direction \<Rightarrow> rat \<Rightarrow> rat \<Rightarrow> rat \<Rightarrow> thrown + jsval"
  cancelLimitOrder :: "MockBitlySDK \<Rightarrow> string \<Rightarrow> direction \<Rightarrow> rat \<Rightarrow> thrown + jsval"
  cancelAllLimitOrder :: "MockBitlySDK \<Rightarrow> string \<Rightarrow> thrown + jsval"
  claimEarning :: "MockBitlySDK \<Rightarrow> string \<Rightarrow> direction \<Rightarrow> rat \<Rightarrow> thrown + jsval"
  claimAllEarnings :: "MockBitlySDK \<Rightarrow> string \<Rightarrow> thrown + jsval"
  updateKline :: "MockBitlySDK \<Rightarrow> string \<Rightarrow> thrown + unit"

text \<open>
  The bundled mock. \<open>rnd\<close> gives the three random hexadecimal strings of a transaction;
  \<^verbatim>\<open>this.signer?.address || ...\<close> takes the random one when there is no address.
\<close>

definition mock_transaction :: "(nat \<Rightarrow> string) \<Rightarrow> MockBitlySDK \<Rightarrow> string \<Rightarrow> jsval" where
  "mock_transaction rnd sdk gasLimit =
     JObj [(''hash'', JStr (''0x'' @ rnd 0)),
           (''to'', JStr (''0x'' @ rnd 1)),
           (''from'', JStr (case signer sdk of
                               None \<Rightarrow> ''0x'' @ rnd 2
                             | Some w \<Rightarrow> if address w = [] then ''0x'' @ rnd 2 else address w)),
           (''gasLimit'', JStr gasLimit),
           (''gasPrice'', JStr ''20000000000''),
           (''value'', JStr ''0'')]"

definition mock_exchange :: "(nat \<Rightarrow> string) \<Rightarrow> exchange" where
  "mock_exchange rnd =
     \<lparr>placeLimitOrder = (\<lambda>sdk pairId d price volume. Inr (mock_transaction rnd sdk ''200000'')),
      placeMarketOrder =
        (\<lambda>sdk pairId d volume curPrice slippage. Inr (mock_transaction rnd sdk ''300000'')),
      cancelLimitOrder = (\<lambda>sdk pairId d point. Inr (mock_transaction rnd sdk ''150000'')),
      cancelAllLimitOrder = (\<lambda>sdk pairId. Inr (mock_transaction rnd sdk ''500000'')),
      claimEarning = (\<lambda>sdk pairId d point. Inr (mock_transaction rnd sdk ''180000'')),
      claimAllEarnings = (\<lambda>sdk pairId. Inr (mock_transaction rnd sdk ''400000'')),
      updateKline = (\<lambda>sdk pairId. Inr ())\<rparr>"

text \<open>\<^verbatim>\<open>(BLOCK_TIME[args.networkId] ?? DEFAULT_BLOCK_TIME) + 1000\<close>\<close>

definition settle_delay :: "int \<Rightarrow> int" where
  "settle_delay nid =
     (case map_of BLOCK_TIME nid of None \<Rightarrow> DEFAULT_BLOCK_TIME | Some t \<Rightarrow> t) + 1000"

text \<open>
  The \<^verbatim>\<open>execute\<close> functions of the six tools, each as the source writes it. The calls to
  the exchange client and the timer are recorded in \<open>effects\<close> in the order they are made.
  \<^verbatim>\<open>await setTimeout(...)\<close> awaits the object that \<^verbatim>\<open>setTimeout\<close> returns.
\<close>

definition place_limit_order ::
  "runtime \<Rightarrow> exchange \<Rightarrow> (thrown + FeeData) \<Rightarrow> int \<Rightarrow> string \<Rightarrow> direction \<Rightarrow> rat \<Rightarrow> rat \<Rightarrow> state \<Rightarrow> (thrown + string) \<times> state" where
  "place_limit_order rt ex node nid pairId d price volume s =
     (case createSDK rt node nid s of
        (Inl e, s1) \<Rightarrow> (Inl e, s1)
      | (Inr sdk0, s1) \<Rightarrow>
          (let sdk = setProvider (map_of (PROVIDERS s1) nid) sdk0;
               s2 = emit (ExchangeCall ''placeLimitOrder'' pairId) s1
           in case placeLimitOrder ex sdk pairId d price volume of
                Inl e \<Rightarrow> (Inl e, s2)
              | Inr info \<Rightarrow>
                  (let s3 = await_on (TimeoutObject (settle_delay nid))
                              (emit (SetTimeout (settle_delay nid)) s2);
                       s4 = emit (ExchangeCall ''updateKline'' pairId) s3
                   in case updateKline ex sdk pairId of
                        Inl e \<Rightarrow> (Inl e, s4)
                      | Inr u \<Rightarrow> (Inr (JSON_stringify rt info), s4))))"

definition place_market_order ::
  "runtime \<Rightarrow> exchange \<Rightarrow> (thrown + FeeData) \<Rightarrow> int \<Rightarrow> string \<Rightarrow> direction \<Rightarrow> rat \<Rightarrow> rat \<Rightarrow> rat \<Rightarrow> state \<Rightarrow> (thrown + string) \<times> state" where
  "place_market_order rt ex node nid pairId d volume curPrice slippage s =
     (case createSDK rt node nid s of
        (Inl e, s1) \<Rightarrow> (Inl e, s1)
      | (Inr sdk0, s1) \<Rightarrow>
          (let sdk = setProvider (map_of (PROVIDERS s1) nid) sdk0;
               s2 = emit (ExchangeCall ''placeMarketOrder'' pairId) s1
           in case placeMarketOrder ex sdk pairId d volume curPrice slippage of
                Inl e \<Rightarrow> (Inl e, s2)
              | Inr info \<Rightarrow>
                  (let s3 = await_on (TimeoutObject (settle_delay nid))
                              (emit (SetTimeout (settle_delay nid)) s2);
                       s4 = emit (ExchangeCall ''updateKline'' pairId) s3
                   in case updateKline ex sdk pairId of
                        Inl e \<Rightarrow> (Inl e, s4)
                      | Inr u \<Rightarrow> (Inr (JSON_stringify rt info), s4))))"

definition cancel_limit_order ::
  "runtime \<Rightarrow> exchange \<Rightarrow> (thrown + FeeData) \<Rightarrow> int \<Rightarrow> string \<Rightarrow> direction \<Rightarrow> rat \<Rightarrow> state \<Rightarrow> (thrown + string) \<times> state" where
  "cancel_limit_order rt ex node nid pairId d point s =
     (case createSDK rt node nid s of
        (Inl e, s1) \<Rightarrow> (Inl e, s1)
      | (Inr sdk0, s1) \<Rightarrow>
          (let sdk = setProvider (map_of (PROVIDERS s1) nid) sdk0;
               s2 = emit (ExchangeCall ''cancelLimitOrder'' pairId) s1
           in case cancelLimitOrder ex sdk pairId d point of
                Inl e \<Rightarrow> (Inl e, s2)
              | Inr info \<Rightarrow> (Inr (JSON_stringify rt info), s2)))"

definition cancel_all_limit_order ::
  "runtime \<Rightarrow> exchange \<Rightarrow> (thrown + FeeData) \<Rightarrow> int \<Rightarrow> string \<Rightarrow> state \<Rightarrow> (thrown + string) \<times> state" where
  "cancel_all_limit_order rt ex node nid pairId s =
     (case createSDK rt node nid s of
        (Inl e, s1) \<Rightarrow> (Inl e, s1)
      | (Inr sdk0, s1) \<Rightarrow>
          (let sdk = setProvider (map_of (PROVIDERS s1) nid) sdk0;
               s2 = emit (ExchangeCall ''cancelAllLimitOrder'' pairId) s1
           in case cancelAllLimitOrder ex sdk pairId of
                Inl e \<Rightarrow> (Inl e, s2)
              | Inr info \<Rightarrow> (Inr (JSON_stringify rt info), s2)))"

definition claim_earning ::
  "runtime \<Rightarrow> exchange \<Rightarrow> (thrown + FeeData) \<Rightarrow> int \<Rightarrow> string \<Rightarrow> direction \<Rightarrow> rat \<Rightarrow> state \<Rightarrow> (thrown + string) \<times> state" where
  "claim_earning rt ex node nid pairId d point s =
     (case createSDK rt node nid s of
        (Inl e, s1) \<Rightarrow> (Inl e, s1)
      | (Inr sdk0, s1) \<Rightarrow>
          (let sdk = setProvider (map_of (PROVIDERS s1) nid) sdk0;
               s2 = emit (ExchangeCall ''claimEarning'' pairId) s1
           in case claimEarning ex sdk pairId d point of
                Inl e \<Rightarrow> (Inl e, s2)
              | Inr info \<Rightarrow> (Inr (JSON_stringify rt info), s2)))"

definition claim_all_earnings ::
  "runtime \<Rightarrow> exchange \<Rightarrow> (thrown + FeeData) \<Rightarrow> int \<Rightarrow> string \<Rightarrow> state \<Rightarrow> (thrown + string) \<times> state" where
  "claim_all_earnings rt ex node nid pairId s =
     (case createSDK rt node nid s of
        (Inl e, s1) \<Rightarrow> (Inl e, s1)
      | (Inr sdk0, s1) \<Rightarrow>
          (let sdk = setProvider (map_of (PROVIDERS s1) nid) sdk0;
               s2 = emit (ExchangeCall ''claimAllEarnings'' pairId) s1
           in case claimAllEarnings ex sdk pairId of
                Inl e \<Rightarrow> (Inl e, s2)
              | Inr info \<Rightarrow> (Inr (JSON_stringify rt info), s2)))"

section \<open>Requests\<close>

text \<open>
  What the server can be asked, one request after the other: a reconfiguration, one of
  the six tools above, or one of the ten reading tools, which changes the state only
  through its call of \<^verbatim>\<open>createSDK\<close>. Each request that reaches the node comes with the
  node's answer to a fee query.
\<close>

datatype request =
    Configure string
  | Session "thrown + FeeData" int
  | PlaceLimitOrder "thrown + FeeData" int string direction rat rat
  | PlaceMarketOrder "thrown + FeeData" int string direction rat rat rat
  | CancelLimitOrder "thrown + FeeData" int string direction rat
  | CancelAllLimitOrder "thrown + FeeData" int string
  | ClaimEarning "thrown + FeeData" int string direction rat
  | ClaimAllEarnings "thrown + FeeData" int string

fun step :: "runtime \<Rightarrow> exchange \<Rightarrow> request \<Rightarrow> state \<Rightarrow> state" where
  "step rt ex (Configure src) s = snd (configure_from_url rt src s)"
| "step rt ex (Session node nid) s = snd (createSDK rt node nid s)"
| "step rt ex (PlaceLimitOrder node nid pairId d price volume) s =
     snd (place_limit_order rt ex node nid pairId d price volume s)"
| "step rt ex (PlaceMarketOrder node nid pairId d volume curPrice slippage) s =
     snd (place_market_order rt ex node nid pairId d volume curPrice slippage s)"
| "step rt ex (CancelLimitOrder node nid pairId d point) s =
     snd (cancel_limit_order rt ex node nid pairId d point s)"
| "step rt ex (CancelAllLimitOrder node nid pairId) s =
     snd (cancel_all_limit_order rt ex node nid pairId s)"
| "step rt ex (ClaimEarning node nid pairId d point) s =
     snd (claim_earning rt ex node nid pairId d point s)"
| "step rt ex (ClaimAllEarnings node nid pairId) s =
     snd (claim_all_earnings rt ex node nid pairId s)"

fun run :: "runtime \<Rightarrow> exchange \<Rightarrow> request list \<Rightarrow> state \<Rightarrow> state" where
  "run rt ex [] s = s"
| "run rt ex (r # rs) s = run rt ex rs (step rt ex r s)"

text \<open>
  Calls that overlap. Between the two parts of a \<^verbatim>\<open>createSDK\<close> call other handlers run:
  reconfigurations, which have no \<^verbatim>\<open>await\<close>, and the parts of other calls. The server
  holds the shared state and the calls that are suspended in their fee query. What a
  tool does after its session is created changes neither the registry nor the providers.
\<close>

record server =
  shared :: state
  suspended :: "suspended_call list"

datatype event =
    Reconfigure string
  | Enter int
  | Resume nat "thrown + FeeData"

fun occur :: "runtime \<Rightarrow> event \<Rightarrow> server \<Rightarrow> server" where
  "occur rt (Reconfigure src) srv =
     srv\<lparr>shared := snd (configure_from_url rt src (shared srv))\<rparr>"
| "occur rt (Enter nid) srv =
     (case createSDK_enter nid (shared srv) of
        Inl e \<Rightarrow> srv
      | Inr c \<Rightarrow> srv\<lparr>suspended := suspended srv @ [c]\<rparr>)"
| "occur rt (Resume i node) srv =
     (if i < length (suspended srv)
      then \<lparr>shared = snd (createSDK_resume rt node (suspended srv ! i) (shared srv)),
            suspended = take i (suspended srv) @ drop (Suc i) (suspended srv)\<rparr>
      else srv)"

fun occurs :: "runtime \<Rightarrow> event list \<Rightarrow> server \<Rightarrow> server" where
  "occurs rt [] srv = srv"
| "occurs rt (ev # evs) srv = occurs rt evs (occur rt ev srv)"

text \<open>Every suspended call on the provider \<open>h\<close> called the closure that holds \<open>g\<close>.\<close>

definition settled :: "nat \<Rightarrow> nat option \<Rightarrow> suspended_call list \<Rightarrow> bool" where
  "settled h g cs = list_all (\<lambda>c. call_provider c = h \<longrightarrow> call_method c = Legacy g) cs"

text \<open>Every handle of the registry points into the store.\<close>

definition wf :: "state \<Rightarrow> bool" where
  "wf s = list_all (\<lambda>(nid, h). h < length (heap s)) (PROVIDERS s)"

text \<open>So does the provider of every suspended call.\<close>

definition wf_server :: "server \<Rightarrow> bool" where
  "wf_server srv =
     (wf (shared srv)
      \<and> list_all (\<lambda>c. call_provider c < length (heap (shared srv))) (suspended srv))"

text \<open>\<^verbatim>\<open>!globalConfig.WALLET_PRIVATE_KEY || !globalConfig.INFURA_API_KEY\<close> is false.\<close>

definition configured :: "state \<Rightarrow> bool" where
  "configured s =
     (truthy_prop (WALLET_PRIVATE_KEY (globalConfig s))
      \<and> truthy_prop (INFURA_API_KEY (globalConfig s)))"

text \<open>A registry with one entry for each of the four network ids, and no other.\<close>

definition full_registry :: "(int \<times> nat) list \<Rightarrow> bool" where
  "full_registry reg =
     (set (map fst reg) = {84532, 8453, 137, 690} \<and> distinct (map fst reg))"

text \<open>
  The invariant of the registry: when both fields of \<^verbatim>\<open>globalConfig\<close> are set and the
  API key can be spliced into an endpoint URL, the registry is full.
\<close>

definition registry_complete :: "runtime \<Rightarrow> state \<Rightarrow> bool" where
  "registry_complete rt s =
     (configured s \<and> \<not> isl (template rt (INFURA_API_KEY (globalConfig s)))
        \<longrightarrow> full_registry (PROVIDERS s))"

section \<open>An example runtime\<close>

text \<open>
  The theorems hold for every runtime; their examples need one. \<open>rt0\<close> answers as Node
  does on the strings of the examples below, each an entry that can be checked against
  Node. On any other argument \<open>URL_new\<close> and \<open>JSON_parse\<close> throw, as they do on
  \<^verbatim>\<open>not a url\<close> and on the empty text, \<open>base64_utf8\<close> returns no text, and \<open>ToString\<close>
  answers as for a plain object. The wallet key of \<open>text_good\<close> is the example key of the
  ethers documentation; the message of a rejected key stands for the library's.
\<close>

definition b64_good :: string where
  "b64_good = ''eyJXQUxMRVRfUFJJVkFURV9LRVkiOiIweDAxMjM0NTY3ODkwMTIzNDU2Nzg5MDEyMzQ1Njc4OTAxMjM0NTY3ODkwMTIzNDU2Nzg5MDEyMzQ1Njc4OTAxMjMiLCJJTkZVUkFfQVBJX0tFWSI6ImtleTEifQ==''"

definition b64_badkey :: string where
  "b64_badkey = ''eyJXQUxMRVRfUFJJVkFURV9LRVkiOiIweGFiY2QiLCJJTkZVUkFfQVBJX0tFWSI6ImtleTEifQ==''"

definition b64_empty :: string where
  "b64_empty = ''eyJXQUxMRVRfUFJJVkFURV9LRVkiOiIweGFiY2QiLCJJTkZVUkFfQVBJX0tFWSI6IiJ9''"

definition b64_objkey :: string where
  "b64_objkey = ''eyJXQUxMRVRfUFJJVkFURV9LRVkiOiIweGFiY2QiLCJJTkZVUkFfQVBJX0tFWSI6eyJ0b1N0cmluZyI6MX19''"

definition b64_badjson :: string where
  "b64_badjson = ''eyJXQUxMRVRfUFJJVkFURV9LRVkiOg==''"

text \<open>Three characters outside the base64 alphabet: the decoder skips them and
  returns no bytes.\<close>

definition b64_malformed :: string where
  "b64_malformed = ''!!!''"

definition text_good :: string where
  \<open>text_good = ''{"WALLET_PRIVATE_KEY":"0x0123456789012345678901234567890123456789012345678901234567890123","INFURA_API_KEY":"key1"}''\<close>

definition text_badkey :: string where
  \<open>text_badkey = ''{"WALLET_PRIVATE_KEY":"0xabcd","INFURA_API_KEY":"key1"}''\<close>

definition text_empty :: string where
  \<open>text_empty = ''{"WALLET_PRIVATE_KEY":"0xabcd","INFURA_API_KEY":""}''\<close>

definition text_objkey :: string where
  \<open>text_objkey = ''{"WALLET_PRIVATE_KEY":"0xabcd","INFURA_API_KEY":{"toString":1}}''\<close>

definition text_badjson :: string where
  \<open>text_badjson = ''{"WALLET_PRIVATE_KEY":''\<close>

definition endpoint :: string where
  "endpoint = ''http://localhost:8080/mcp''"

definition src_of :: "string \<Rightarrow> string" where
  "src_of b64 = endpoint @ ''?config='' @ b64"

definition json_good :: jsval where
  "json_good =
     JObj [(''WALLET_PRIVATE_KEY'', JStr ''0x0123456789012345678901234567890123456789012345678901234567890123''),
           (''INFURA_API_KEY'', JStr ''key1'')]"

definition json_badkey :: jsval where
  "json_badkey =
     JObj [(''WALLET_PRIVATE_KEY'', JStr ''0xabcd''), (''INFURA_API_KEY'', JStr ''key1'')]"

definition json_empty :: jsval where
  "json_empty =
     JObj [(''WALLET_PRIVATE_KEY'', JStr ''0xabcd''), (''INFURA_API_KEY'', JStr [])]"

definition json_objkey :: jsval where
  "json_objkey =
     JObj [(''WALLET_PRIVATE_KEY'', JStr ''0xabcd''),
           (''INFURA_API_KEY'', JObj [(''toString'', JNum 1)])]"

definition message_object :: jsval where
  "message_object = JObj [(''message'', JStr ''Configuration updated successfully'')]"

text \<open>\<^verbatim>\<open>JSON.stringify\<close> on an object whose values are strings, when no key or value
  has a character to escape: the objects the examples serialise.\<close>

fun members :: "(string \<times> jsval) list \<Rightarrow> string" where
  \<open>members [] = []\<close>
| \<open>members ((k, JStr v) # kvs) =
     ''"'' @ k @ ''":"'' @ v @ ''"'' @ (if kvs = [] then [] else '','' @ members kvs)\<close>
| \<open>members ((k, v) # kvs) =
     ''"'' @ k @ ''":null'' @ (if kvs = [] then [] else '','' @ members kvs)\<close>

fun stringify_flat :: "jsval \<Rightarrow> string" where
  "stringify_flat (JObj kvs) = ''{'' @ members kvs @ ''}''"
| "stringify_flat v = ''null''"

definition rt0 :: runtime where
  \<open>rt0 =
     \<lparr>URL_new = (\<lambda>src.
        if src = endpoint then Inr \<lparr>searchParams = []\<rparr>
        else if src = src_of b64_good then Inr \<lparr>searchParams = [(''config'', b64_good)]\<rparr>
        else if src = src_of b64_badkey then Inr \<lparr>searchParams = [(''config'', b64_badkey)]\<rparr>
        else if src = src_of b64_empty then Inr \<lparr>searchParams = [(''config'', b64_empty)]\<rparr>
        else if src = src_of b64_objkey then Inr \<lparr>searchParams = [(''config'', b64_objkey)]\<rparr>
        else if src = src_of b64_badjson then Inr \<lparr>searchParams = [(''config'', b64_badjson)]\<rparr>
        else if src = src_of b64_malformed
          then Inr \<lparr>searchParams = [(''config'', b64_malformed)]\<rparr>
        else Inl (Error ''Invalid URL'')),
      base64_utf8 = (\<lambda>x.
        if x = b64_good then text_good
        else if x = b64_badkey then text_badkey
        else if x = b64_empty then text_empty
        else if x = b64_objkey then text_objkey
        else if x = b64_badjson then text_badjson
        else if x = b64_malformed then []
        else []),
      JSON_parse = (\<lambda>x.
        if x = text_good then Inr json_good
        else if x = text_badkey then Inr json_badkey
        else if x = text_empty then Inr json_empty
        else if x = text_objkey then Inr json_objkey
        else Inl (Error ''Unexpected end of JSON input'')),
      JSON_stringify = stringify_flat,
      ToString = (\<lambda>v.
        if v = JObj [(''toString'', JNum 1)]
        then Inl (Error ''Cannot convert object to primitive value'')
        else Inr ''[object Object]''),
      Wallet_new = (\<lambda>k.
        if k = Some (JStr ''0x0123456789012345678901234567890123456789012345678901234567890123'')
        then Inr \<lparr>address = ''0x14791697260E4c9A71f18484C9f997B308e59325''\<rparr>
        else Inl (Error ''invalid private key''))\<rparr>\<close>

text \<open>The mock with fixed random strings, and a client whose refresh is rejected.\<close>

definition ex0 :: exchange where
  "ex0 = mock_exchange (\<lambda>i. ''8f3a1c2b4d5e6'')"

definition ex_refresh_fails :: exchange where
  "ex_refresh_fails = ex0\<lparr>updateKline := (\<lambda>sdk pairId. Inl (Error ''kline refresh failed''))\<rparr>"

text \<open>Two answers of a node to a fee query.\<close>

definition fee0 :: FeeData where
  "fee0 = \<lparr>lastBaseFeePerGas = Some 7, maxFeePerGas = Some 20,
           maxPriorityFeePerGas = Some 2, gasPrice = Some 9\<rparr>"

definition fee1 :: FeeData where
  "fee1 = \<lparr>lastBaseFeePerGas = Some 8, maxFeePerGas = Some 24,
           maxPriorityFeePerGas = Some 3, gasPrice = Some 11\<rparr>"

text \<open>The state after a reconfiguration with the good source.\<close>

definition s_good :: state where
  "s_good = snd (configure_from_url rt0 (src_of b64_good) init_state)"

text \<open>The state after a reconfiguration with the wallet key \<^verbatim>\<open>0xabcd\<close>.\<close>

definition s_badkey :: state where
  "s_badkey = snd (configure_from_url rt0 (src_of b64_badkey) init_state)"

section \<open>The examples, evaluated\<close>

lemmas examples =
  rt0_def endpoint_def src_of_def
  b64_good_def b64_badkey_def b64_empty_def b64_objkey_def b64_badjson_def b64_malformed_def
  text_good_def text_badkey_def text_empty_def text_objkey_def text_badjson_def
  json_good_def json_badkey_def json_empty_def json_objkey_def message_object_def

lemma parse_try_good:
  "parse_try rt0 (src_of b64_good) =
     Inr (Some \<lparr>WALLET_PRIVATE_KEY =
                  Some (JStr ''0x0123456789012345678901234567890123456789012345678901234567890123''),
                INFURA_API_KEY = Some (JStr ''key1'')\<rparr>)"
  by (simp add: parse_try_def examples)

lemma parse_try_badkey:
  "parse_try rt0 (src_of b64_badkey) =
     Inr (Some \<lparr>WALLET_PRIVATE_KEY = Some (JStr ''0xabcd''),
                INFURA_API_KEY = Some (JStr ''key1'')\<rparr>)"
  by (simp add: parse_try_def examples)

lemma parse_try_objkey:
  "parse_try rt0 (src_of b64_objkey) =
     Inr (Some \<lparr>WALLET_PRIVATE_KEY = Some (JStr ''0xabcd''),
                INFURA_API_KEY = Some (JObj [(''toString'', JNum 1)])\<rparr>)"
  by (simp add: parse_try_def examples)

lemma parse_try_not_url: "parse_try rt0 ''not a url'' = Inl (Error ''Invalid URL'')"
  by (simp add: parse_try_def examples)

lemma parse_try_missing: "parse_try rt0 endpoint = Inr None"
  by (simp add: parse_try_def examples)

lemma parse_try_badjson:
  "parse_try rt0 (src_of b64_badjson) = Inl (Error ''Unexpected end of JSON input'')"
  by (simp add: parse_try_def examples)

lemma parse_try_malformed:
  "parse_try rt0 (src_of b64_malformed) = Inl (Error ''Unexpected end of JSON input'')"
  by (simp add: parse_try_def examples)

lemma parse_try_empty:
  "parse_try rt0 (src_of b64_empty) =
     Inl (Error ''Missing required config fields: WALLET_PRIVATE_KEY, INFURA_API_KEY'')"
  by (simp add: parse_try_def examples)

lemma s_good_eq:
  "s_good =
     \<lparr>globalConfig =
        \<lparr>WALLET_PRIVATE_KEY =
           Some (JStr ''0x0123456789012345678901234567890123456789012345678901234567890123''),
         INFURA_API_KEY = Some (JStr ''key1'')\<rparr>,
      PROVIDERS = [(84532, 0), (8453, 1), (137, 2), (690, 3)],
      heap =
        [\<lparr>connection_url = ''https://base-sepolia.infura.io/v3/key1'',
          chainId = 84532, getFeeData = Original\<rparr>,
         \<lparr>connection_url = ''https://base-mainnet.infura.io/v3/key1'',
          chainId = 8453, getFeeData = Original\<rparr>,
         \<lparr>connection_url = ''https://polygon-mainnet.infura.io/v3/key1'',
          chainId = 137, getFeeData = Original\<rparr>,
         \<lparr>connection_url = ''https://rpc.redstonechain.com'',
          chainId = 690, getFeeData = Original\<rparr>],
      effects =
        [ConsoleLog ''Config parsed from URL successfully'',
         ConsoleLog ''Providers initialized successfully''],
      waited = 0\<rparr>"
  by (simp add: s_good_def configure_from_url_def updateConfigFromURL_def
        parseConfigFromURL_def parse_try_good createProviders_def emit_def init_state_def
        DEFAULT_NETWORK_ID_def)

lemma s_badkey_eq:
  "s_badkey =
     \<lparr>globalConfig =
        \<lparr>WALLET_PRIVATE_KEY = Some (JStr ''0xabcd''), INFURA_API_KEY = Some (JStr ''key1'')\<rparr>,
      PROVIDERS = [(84532, 0), (8453, 1), (137, 2), (690, 3)],
      heap =
        [\<lparr>connection_url = ''https://base-sepolia.infura.io/v3/key1'',
          chainId = 84532, getFeeData = Original\<rparr>,
         \<lparr>connection_url = ''https://base-mainnet.infura.io/v3/key1'',
          chainId = 8453, getFeeData = Original\<rparr>,
         \<lparr>connection_url = ''https://polygon-mainnet.infura.io/v3/key1'',
          chainId = 137, getFeeData = Original\<rparr>,
         \<lparr>connection_url = ''https://rpc.redstonechain.com'',
          chainId = 690, getFeeData = Original\<rparr>],
      effects =
        [ConsoleLog ''Config parsed from URL successfully'',
         ConsoleLog ''Providers initialized successfully''],
      waited = 0\<rparr>"
  by (simp add: s_badkey_def configure_from_url_def updateConfigFromURL_def
        parseConfigFromURL_def parse_try_badkey createProviders_def emit_def init_state_def
        DEFAULT_NETWORK_ID_def)

section \<open>The decoder\<close>

lemma parse_fst:
  "fst (parseConfigFromURL rt src s) =
     Inr (case parse_try rt src of Inl e \<Rightarrow> None | Inr r \<Rightarrow> r)"
  by (simp add: parseConfigFromURL_def split: sum.split)

lemma parse_snd:
  "globalConfig (snd (parseConfigFromURL rt src s)) = globalConfig s
   \<and> PROVIDERS (snd (parseConfigFromURL rt src s)) = PROVIDERS s
   \<and> heap (snd (parseConfigFromURL rt src s)) = heap s"
  by (simp add: parseConfigFromURL_def emit_def split: sum.split)

text \<open>
  C6, as the code has it. \<^verbatim>\<open>parseConfigFromURL\<close> never throws, and it returns \<^verbatim>\<open>null\<close> at
  each of its failure points, whichever it is: a source that is not a URL, an absent or
  empty \<^verbatim>\<open>config\<close> parameter, text that is not JSON, a parsed value whose fields cannot
  be read, a required field that is absent or falsy. Otherwise it returns the parsed
  configuration. Decoding base64 is no failure point: \<^verbatim>\<open>Buffer.from\<close> does not throw.
\<close>

theorem parseConfigFromURL_null_at_every_failure_point:
  "(\<exists>r. fst (parseConfigFromURL rt src s) = Inr r)
   \<and> (URL_new rt src = Inl e1 \<longrightarrow> fst (parseConfigFromURL rt src s) = Inr None)
   \<and> (URL_new rt src = Inr u \<and> map_of (searchParams u) ''config'' = None
        \<longrightarrow> fst (parseConfigFromURL rt src s) = Inr None)
   \<and> (URL_new rt src = Inr u \<and> map_of (searchParams u) ''config'' = Some []
        \<longrightarrow> fst (parseConfigFromURL rt src s) = Inr None)
   \<and> (URL_new rt src = Inr u \<and> map_of (searchParams u) ''config'' = Some p \<and> p \<noteq> []
        \<and> JSON_parse rt (base64_utf8 rt p) = Inl e2
        \<longrightarrow> fst (parseConfigFromURL rt src s) = Inr None)
   \<and> (URL_new rt src = Inr u \<and> map_of (searchParams u) ''config'' = Some p \<and> p \<noteq> []
        \<and> JSON_parse rt (base64_utf8 rt p) = Inr v \<and> read_config v = Inl e3
        \<longrightarrow> fst (parseConfigFromURL rt src s) = Inr None)
   \<and> (URL_new rt src = Inr u \<and> map_of (searchParams u) ''config'' = Some p \<and> p \<noteq> []
        \<and> JSON_parse rt (base64_utf8 rt p) = Inr v \<and> read_config v = Inr c
        \<and> (\<not> truthy_prop (WALLET_PRIVATE_KEY c) \<or> \<not> truthy_prop (INFURA_API_KEY c))
        \<longrightarrow> fst (parseConfigFromURL rt src s) = Inr None)
   \<and> (URL_new rt src = Inr u \<and> map_of (searchParams u) ''config'' = Some p \<and> p \<noteq> []
        \<and> JSON_parse rt (base64_utf8 rt p) = Inr v \<and> read_config v = Inr c
        \<and> truthy_prop (WALLET_PRIVATE_KEY c) \<and> truthy_prop (INFURA_API_KEY c)
        \<longrightarrow> fst (parseConfigFromURL rt src s) = Inr (Some c))"
  unfolding parse_fst by (simp add: parse_try_def)

text \<open>The failure points of C6 at example sources, and the success.\<close>

theorem parseConfigFromURL_null_at_every_failure_point_witness:
  "URL_new rt0 ''not a url'' = Inl (Error ''Invalid URL'')
   \<and> fst (parseConfigFromURL rt0 ''not a url'' init_state) = Inr None
   \<and> URL_new rt0 endpoint = Inr \<lparr>searchParams = []\<rparr>
   \<and> fst (parseConfigFromURL rt0 endpoint init_state) = Inr None
   \<and> JSON_parse rt0 (base64_utf8 rt0 b64_badjson) = Inl (Error ''Unexpected end of JSON input'')
   \<and> fst (parseConfigFromURL rt0 (src_of b64_badjson) init_state) = Inr None
   \<and> base64_utf8 rt0 b64_malformed = []
   \<and> JSON_parse rt0 [] = Inl (Error ''Unexpected end of JSON input'')
   \<and> fst (parseConfigFromURL rt0 (src_of b64_malformed) init_state) = Inr None
   \<and> JSON_parse rt0 (base64_utf8 rt0 b64_empty) = Inr json_empty
   \<and> \<not> truthy_prop (map_of [(''WALLET_PRIVATE_KEY'', JStr ''0xabcd''), (''INFURA_API_KEY'', JStr [])]
                       ''INFURA_API_KEY'')
   \<and> fst (parseConfigFromURL rt0 (src_of b64_empty) init_state) = Inr None
   \<and> JSON_parse rt0 (base64_utf8 rt0 b64_good) = Inr json_good
   \<and> (\<exists>c. fst (parseConfigFromURL rt0 (src_of b64_good) init_state) = Inr (Some c)
          \<and> INFURA_API_KEY c = Some (JStr ''key1''))"
proof -
  have u1: "URL_new rt0 ''not a url'' = Inl (Error ''Invalid URL'')"
    by (simp add: examples)
  have u2: "URL_new rt0 endpoint = Inr \<lparr>searchParams = []\<rparr>"
    by (simp add: examples)
  have u3: "URL_new rt0 (src_of b64_badjson) = Inr \<lparr>searchParams = [(''config'', b64_badjson)]\<rparr>"
    by (simp add: examples)
  have u4: "URL_new rt0 (src_of b64_empty) = Inr \<lparr>searchParams = [(''config'', b64_empty)]\<rparr>"
    by (simp add: examples)
  have u5: "URL_new rt0 (src_of b64_good) = Inr \<lparr>searchParams = [(''config'', b64_good)]\<rparr>"
    by (simp add: examples)
  have j3: "JSON_parse rt0 (base64_utf8 rt0 b64_badjson) = Inl (Error ''Unexpected end of JSON input'')"
    by (simp add: examples)
  have j4: "JSON_parse rt0 (base64_utf8 rt0 b64_empty) = Inr json_empty"
    by (simp add: examples)
  have j5: "JSON_parse rt0 (base64_utf8 rt0 b64_good) = Inr json_good"
    by (simp add: examples)
  have r1: "fst (parseConfigFromURL rt0 ''not a url'' init_state) = Inr None"
    using parseConfigFromURL_null_at_every_failure_point
            [of rt0 "''not a url''" init_state "Error ''Invalid URL''"] u1
    by blast
  have r2: "fst (parseConfigFromURL rt0 endpoint init_state) = Inr None"
    using parseConfigFromURL_null_at_every_failure_point
            [of rt0 endpoint init_state _ "\<lparr>searchParams = []\<rparr>"] u2
    by simp
  have r3: "fst (parseConfigFromURL rt0 (src_of b64_badjson) init_state) = Inr None"
    using parseConfigFromURL_null_at_every_failure_point
            [of rt0 "src_of b64_badjson" init_state _
                "\<lparr>searchParams = [(''config'', b64_badjson)]\<rparr>" b64_badjson
                "Error ''Unexpected end of JSON input''"] u3 j3
    by (simp add: b64_badjson_def)
  have u6: "URL_new rt0 (src_of b64_malformed)
               = Inr \<lparr>searchParams = [(''config'', b64_malformed)]\<rparr>"
    by (simp add: examples)
  have j6: "base64_utf8 rt0 b64_malformed = []"
    "JSON_parse rt0 [] = Inl (Error ''Unexpected end of JSON input'')"
    by (simp_all add: examples)
  have r6: "fst (parseConfigFromURL rt0 (src_of b64_malformed) init_state) = Inr None"
    using parseConfigFromURL_null_at_every_failure_point
            [of rt0 "src_of b64_malformed" init_state _
                "\<lparr>searchParams = [(''config'', b64_malformed)]\<rparr>" b64_malformed
                "Error ''Unexpected end of JSON input''"] u6 j6
    by (simp add: b64_malformed_def)
  have r4: "fst (parseConfigFromURL rt0 (src_of b64_empty) init_state) = Inr None"
    using parseConfigFromURL_null_at_every_failure_point
            [of rt0 "src_of b64_empty" init_state _
                "\<lparr>searchParams = [(''config'', b64_empty)]\<rparr>" b64_empty _ json_empty _
                "\<lparr>WALLET_PRIVATE_KEY = Some (JStr ''0xabcd''), INFURA_API_KEY = Some (JStr [])\<rparr>"]
          u4 j4
    by (simp add: b64_empty_def json_empty_def)
  have r5: "fst (parseConfigFromURL rt0 (src_of b64_good) init_state) =
              Inr (Some \<lparr>WALLET_PRIVATE_KEY =
                           Some (JStr ''0x0123456789012345678901234567890123456789012345678901234567890123''),
                         INFURA_API_KEY = Some (JStr ''key1'')\<rparr>)"
    using parseConfigFromURL_null_at_every_failure_point
            [of rt0 "src_of b64_good" init_state _
                "\<lparr>searchParams = [(''config'', b64_good)]\<rparr>" b64_good _ json_good _
                "\<lparr>WALLET_PRIVATE_KEY =
                   Some (JStr ''0x0123456789012345678901234567890123456789012345678901234567890123''),
                  INFURA_API_KEY = Some (JStr ''key1'')\<rparr>"]
          u5 j5
    by (simp add: b64_good_def json_good_def)
  show ?thesis
    using u1 u2 j3 j4 j5 j6 r1 r2 r3 r4 r5 r6 by simp
qed

text \<open>
  C6 as the spec states it fails: a source that is not a URL and a URL without the
  \<^verbatim>\<open>config\<close> parameter fail at different points and give the same result, \<^verbatim>\<open>null\<close>, as do
  a parameter that is not base64, text that is not JSON and an empty required field.
\<close>

theorem parseConfigFromURL_failures_not_distinguished:
  "URL_new rt0 ''not a url'' = Inl (Error ''Invalid URL'')
   \<and> URL_new rt0 endpoint = Inr \<lparr>searchParams = []\<rparr>
   \<and> fst (parseConfigFromURL rt0 ''not a url'' init_state) = Inr None
   \<and> fst (parseConfigFromURL rt0 endpoint init_state) = Inr None
   \<and> fst (parseConfigFromURL rt0 (src_of b64_malformed) init_state) = Inr None
   \<and> fst (parseConfigFromURL rt0 (src_of b64_badjson) init_state) = Inr None
   \<and> fst (parseConfigFromURL rt0 (src_of b64_empty) init_state) = Inr None"
  by (simp add: parse_fst parse_try_not_url parse_try_missing parse_try_badjson
        parse_try_empty parse_try_malformed) (simp add: examples)

section \<open>Reconfiguration\<close>

lemma configure_from_url_result:
  "fst (configure_from_url rt src s) = Inr (JSON_stringify rt message_object)"
  by (simp add: configure_from_url_def updateConfigFromURL_def parseConfigFromURL_def
        createProviders_def message_object_def Let_def
        split: sum.split option.split prod.split)

lemma configure_from_url_state:
  "snd (configure_from_url rt src s) = snd (updateConfigFromURL rt src s)"
  by (simp add: configure_from_url_def split: sum.split prod.split)

text \<open>
  C7. When the decode of the source fails, which the code sees as \<^verbatim>\<open>null\<close>, the
  reconfiguration leaves \<^verbatim>\<open>globalConfig\<close>, \<^verbatim>\<open>PROVIDERS\<close> and the provider objects as they
  were, through \<^verbatim>\<open>updateConfigFromURL\<close> and through the tool alike.
\<close>

theorem failed_decode_keeps_configuration:
  assumes "fst (parseConfigFromURL rt src s) = Inr None"
  shows "globalConfig (snd (updateConfigFromURL rt src s)) = globalConfig s
         \<and> PROVIDERS (snd (updateConfigFromURL rt src s)) = PROVIDERS s
         \<and> heap (snd (updateConfigFromURL rt src s)) = heap s
         \<and> globalConfig (snd (configure_from_url rt src s)) = globalConfig s
         \<and> PROVIDERS (snd (configure_from_url rt src s)) = PROVIDERS s
         \<and> heap (snd (configure_from_url rt src s)) = heap s"
proof -
  obtain s1 where p: "parseConfigFromURL rt src s = (Inr None, s1)"
    using assms by (cases "parseConfigFromURL rt src s") simp
  have "globalConfig s1 = globalConfig s \<and> PROVIDERS s1 = PROVIDERS s \<and> heap s1 = heap s"
    using parse_snd [of rt src s] p by simp
  then have "globalConfig (snd (updateConfigFromURL rt src s)) = globalConfig s
         \<and> PROVIDERS (snd (updateConfigFromURL rt src s)) = PROVIDERS s
         \<and> heap (snd (updateConfigFromURL rt src s)) = heap s"
    using p by (simp add: updateConfigFromURL_def emit_def)
  then show ?thesis
    by (simp add: configure_from_url_state)
qed

text \<open>C7 on a configured server: five failing sources, none of which changes it.\<close>

theorem failed_decode_keeps_configuration_witness:
  "configured s_good
   \<and> fst (parseConfigFromURL rt0 ''not a url'' s_good) = Inr None
   \<and> globalConfig (snd (configure_from_url rt0 ''not a url'' s_good)) = globalConfig s_good
   \<and> PROVIDERS (snd (configure_from_url rt0 ''not a url'' s_good)) = PROVIDERS s_good
   \<and> fst (parseConfigFromURL rt0 endpoint s_good) = Inr None
   \<and> globalConfig (snd (configure_from_url rt0 endpoint s_good)) = globalConfig s_good
   \<and> PROVIDERS (snd (configure_from_url rt0 endpoint s_good)) = PROVIDERS s_good
   \<and> fst (parseConfigFromURL rt0 (src_of b64_badjson) s_good) = Inr None
   \<and> globalConfig (snd (configure_from_url rt0 (src_of b64_badjson) s_good)) = globalConfig s_good
   \<and> PROVIDERS (snd (configure_from_url rt0 (src_of b64_badjson) s_good)) = PROVIDERS s_good
   \<and> fst (parseConfigFromURL rt0 (src_of b64_malformed) s_good) = Inr None
   \<and> globalConfig (snd (configure_from_url rt0 (src_of b64_malformed) s_good)) = globalConfig s_good
   \<and> PROVIDERS (snd (configure_from_url rt0 (src_of b64_malformed) s_good)) = PROVIDERS s_good
   \<and> fst (parseConfigFromURL rt0 (src_of b64_empty) s_good) = Inr None
   \<and> globalConfig (snd (configure_from_url rt0 (src_of b64_empty) s_good)) = globalConfig s_good
   \<and> PROVIDERS (snd (configure_from_url rt0 (src_of b64_empty) s_good)) = PROVIDERS s_good
   \<and> PROVIDERS s_good = [(84532, 0), (8453, 1), (137, 2), (690, 3)]"
proof -
  have h1: "fst (parseConfigFromURL rt0 ''not a url'' s_good) = Inr None"
    by (simp add: parse_fst parse_try_not_url)
  have h2: "fst (parseConfigFromURL rt0 endpoint s_good) = Inr None"
    by (simp add: parse_fst parse_try_missing)
  have h3: "fst (parseConfigFromURL rt0 (src_of b64_badjson) s_good) = Inr None"
    by (simp add: parse_fst parse_try_badjson)
  have h4: "fst (parseConfigFromURL rt0 (src_of b64_empty) s_good) = Inr None"
    by (simp add: parse_fst parse_try_empty)
  have h5: "fst (parseConfigFromURL rt0 (src_of b64_malformed) s_good) = Inr None"
    by (simp add: parse_fst parse_try_malformed)
  have c: "configured s_good"
    by (simp add: configured_def s_good_eq)
  have p: "PROVIDERS s_good = [(84532, 0), (8453, 1), (137, 2), (690, 3)]"
    by (simp add: s_good_eq)
  show ?thesis
    using failed_decode_keeps_configuration [OF h1] failed_decode_keeps_configuration [OF h2]
      failed_decode_keeps_configuration [OF h3] failed_decode_keeps_configuration [OF h4]
      failed_decode_keeps_configuration [OF h5]
      h1 h2 h3 h4 h5 c p
    by simp
qed

text \<open>
  C1 at a URL without the \<^verbatim>\<open>config\<close> parameter, on a server that has no configuration:
  the decode fails, the server stays without configuration, and the tool returns the
  text it returns after a reconfiguration that succeeded.
\<close>

theorem configure_from_url_same_result_after_failure:
  \<open>fst (parseConfigFromURL rt0 endpoint init_state) = Inr None
   \<and> fst (configure_from_url rt0 endpoint init_state)
       = Inr ''{"message":"Configuration updated successfully"}''
   \<and> \<not> configured (snd (configure_from_url rt0 endpoint init_state))
   \<and> PROVIDERS (snd (configure_from_url rt0 endpoint init_state)) = []
   \<and> fst (configure_from_url rt0 (src_of b64_good) init_state)
       = Inr ''{"message":"Configuration updated successfully"}''
   \<and> configured (snd (configure_from_url rt0 (src_of b64_good) init_state))\<close>
proof -
  have a: "fst (parseConfigFromURL rt0 endpoint init_state) = Inr None"
    by (simp add: parse_fst parse_try_missing)
  have b: \<open>JSON_stringify rt0 message_object = ''{"message":"Configuration updated successfully"}''\<close>
    by (simp add: rt0_def message_object_def)
  have c: "snd (configure_from_url rt0 endpoint init_state)
             = emit (ConsoleLog ''Failed to parse config from URL - configuration required'') init_state"
    by (simp add: configure_from_url_def updateConfigFromURL_def parseConfigFromURL_def
          parse_try_missing)
  have d: "configured (snd (configure_from_url rt0 (src_of b64_good) init_state))"
    using s_good_eq by (simp add: s_good_def configured_def)
  show ?thesis
    using a b c d by (simp add: configure_from_url_result configured_def emit_def init_state_def)
qed

section \<open>Sessions\<close>

lemma call_getFeeData_unfold:
  "call_getFeeData node p =
     (case getFeeData p of
        Original \<Rightarrow> node
      | Legacy g \<Rightarrow>
          Inr \<lparr>lastBaseFeePerGas = None, maxFeePerGas = None,
               maxPriorityFeePerGas = None, gasPrice = g\<rparr>)"
  by (simp add: call_getFeeData_def invoke_getFeeData_def)

text \<open>The call in one piece.\<close>

lemma createSDK_unfold:
  "createSDK rt node nid s =
     (if \<not> truthy_prop (WALLET_PRIVATE_KEY (globalConfig s))
         \<or> \<not> truthy_prop (INFURA_API_KEY (globalConfig s))
      then (Inl (Error ''Configuration not provided. Use configure_from_url tool or set MCP_SERVER_URL with base64 encoded config parameter.''), s)
      else
        (case map_of (PROVIDERS s) nid of
           None \<Rightarrow>
             (Inl (Error (''Provider not available for network '' @ show_int nid
                          @ ''. Configuration may not be properly set.'')), s)
         | Some h \<Rightarrow>
             (case call_getFeeData node (heap s ! h) of
                Inl e \<Rightarrow> (Inl e, s)
              | Inr feeData \<Rightarrow>
                  (let s1 = s\<lparr>heap := (heap s)
                                [h := (heap s ! h)\<lparr>getFeeData := Legacy (gasPrice feeData)\<rparr>]\<rparr>;
                       sdk = \<lparr>networkId = nid, provider = Some h, signer = None\<rparr>
                   in case Wallet_new rt (WALLET_PRIVATE_KEY (globalConfig s1)) of
                        Inl e \<Rightarrow>
                          (Inl (ServerResponse 401
                                  (''Unauthorized - ''
                                   @ message_or ''Invalid wallet configuration'' e)), s1)
                      | Inr w \<Rightarrow> (Inr (setSigner w sdk), s1)))))"
  by (simp add: createSDK_def createSDK_enter_def createSDK_resume_def call_getFeeData_def
        Let_def split: option.split sum.split)

lemma createSDK_frame:
  "globalConfig (snd (createSDK rt node nid s)) = globalConfig s
   \<and> PROVIDERS (snd (createSDK rt node nid s)) = PROVIDERS s
   \<and> effects (snd (createSDK rt node nid s)) = effects s
   \<and> length (heap (snd (createSDK rt node nid s))) = length (heap s)
   \<and> waited (snd (createSDK rt node nid s)) = waited s"
  by (simp add: createSDK_unfold Let_def split: option.split sum.split)

lemma createSDK_enter_success:
  assumes "createSDK_enter nid s = Inr c"
  shows "configured s \<and> map_of (PROVIDERS s) nid = Some (call_provider c)
         \<and> call_method c = getFeeData (heap s ! call_provider c)
         \<and> call_networkId c = nid"
  using assms
  by (auto simp: createSDK_enter_def configured_def split: if_splits option.splits)

lemma createSDK_resume_frame:
  "globalConfig (snd (createSDK_resume rt node c s)) = globalConfig s
   \<and> PROVIDERS (snd (createSDK_resume rt node c s)) = PROVIDERS s
   \<and> length (heap (snd (createSDK_resume rt node c s))) = length (heap s)"
  by (simp add: createSDK_resume_def Let_def split: sum.split)

lemma createSDK_resume_heap:
  "heap (snd (createSDK_resume rt node c s)) = heap s
   \<or> (\<exists>fd. invoke_getFeeData (call_method c) node = Inr fd
         \<and> heap (snd (createSDK_resume rt node c s))
             = (heap s)[call_provider c :=
                  (heap s ! call_provider c)\<lparr>getFeeData := Legacy (gasPrice fd)\<rparr>])"
  by (simp add: createSDK_resume_def Let_def split: sum.split)

lemma createSDK_resume_success:
  assumes "createSDK_resume rt node c s = (Inr sdk, s1)"
  shows "\<exists>fd w. invoke_getFeeData (call_method c) node = Inr fd
           \<and> sdk = \<lparr>networkId = call_networkId c, provider = Some (call_provider c),
                     signer = Some w\<rparr>
           \<and> s1 = s\<lparr>heap := (heap s)[call_provider c :=
                      (heap s ! call_provider c)\<lparr>getFeeData := Legacy (gasPrice fd)\<rparr>]\<rparr>"
  using assms
  by (auto simp: createSDK_resume_def setSigner_def Let_def split: sum.splits)

lemma createSDK_heap:
  "heap (snd (createSDK rt node nid s)) = heap s
   \<or> (\<exists>h fd. map_of (PROVIDERS s) nid = Some h
         \<and> call_getFeeData node (heap s ! h) = Inr fd
         \<and> heap (snd (createSDK rt node nid s))
             = (heap s)[h := (heap s ! h)\<lparr>getFeeData := Legacy (gasPrice fd)\<rparr>])"
  by (simp add: createSDK_unfold Let_def split: option.split sum.split)

lemma createSDK_success:
  assumes "createSDK rt node nid s = (Inr sdk, s1)"
  shows "\<exists>h fd w. configured s \<and> map_of (PROVIDERS s) nid = Some h
           \<and> call_getFeeData node (heap s ! h) = Inr fd
           \<and> Wallet_new rt (WALLET_PRIVATE_KEY (globalConfig s)) = Inr w
           \<and> sdk = \<lparr>networkId = nid, provider = Some h, signer = Some w\<rparr>
           \<and> s1 = s\<lparr>heap := (heap s)[h := (heap s ! h)\<lparr>getFeeData := Legacy (gasPrice fd)\<rparr>]\<rparr>"
  using assms
  by (auto simp: createSDK_unfold configured_def setSigner_def Let_def
        split: option.splits sum.splits if_splits)

text \<open>
  C4. \<^verbatim>\<open>createSDK\<close> tests the configuration first: when a field of \<^verbatim>\<open>globalConfig\<close> is
  absent or falsy it throws the error that asks for a configuration, whatever the
  network id. With a configuration, a network id that has no entry in \<^verbatim>\<open>PROVIDERS\<close> gets
  the error that names the network. The state is the same after either throw.
\<close>

theorem createSDK_preconditions_in_order:
  "(\<not> configured s \<longrightarrow>
      createSDK rt node nid s =
        (Inl (Error ''Configuration not provided. Use configure_from_url tool or set MCP_SERVER_URL with base64 encoded config parameter.''), s))
   \<and> (configured s \<and> map_of (PROVIDERS s) nid = None \<longrightarrow>
      createSDK rt node nid s =
        (Inl (Error (''Provider not available for network '' @ show_int nid
                     @ ''. Configuration may not be properly set.'')), s))"
  by (auto simp: createSDK_unfold configured_def)

text \<open>C4 on the server before any configuration, at a listed network id, and on the
  configured server, at network id 1.\<close>

theorem createSDK_preconditions_in_order_witness:
  "\<not> configured init_state
   \<and> createSDK rt0 (Inr fee0) 84532 init_state =
        (Inl (Error ''Configuration not provided. Use configure_from_url tool or set MCP_SERVER_URL with base64 encoded config parameter.''), init_state)
   \<and> configured s_good \<and> map_of (PROVIDERS s_good) 1 = None
   \<and> createSDK rt0 (Inr fee0) 1 s_good =
        (Inl (Error ''Provider not available for network 1. Configuration may not be properly set.''), s_good)"
proof -
  have a: "\<not> configured init_state"
    by (simp add: configured_def init_state_def)
  have b: "configured s_good \<and> map_of (PROVIDERS s_good) 1 = None"
    by (simp add: configured_def s_good_eq)
  have c: "show_int 1 = ''1''"
    by (simp add: show_int_def digits.simps)
  show ?thesis
    using createSDK_preconditions_in_order [of init_state rt0 "Inr fee0" 84532]
      createSDK_preconditions_in_order [of s_good rt0 "Inr fee0" 1] a b c
    by simp
qed

text \<open>
  C9, as the code has it. Let the \<^verbatim>\<open>Wallet\<close> constructor reject the wallet key of
  \<^verbatim>\<open>globalConfig\<close>. A \<^verbatim>\<open>createSDK\<close> call that continues after its fee query has returned
  throws a \<^verbatim>\<open>ServerResponse\<close> with status 401 whose status message is \<^verbatim>\<open>Unauthorized - \<close>
  followed by the message of the constructor's error. So does the call in one piece
  when both fields of the configuration are set, the network id has a provider and the
  fee query returns; what it throws is no \<^verbatim>\<open>Error\<close>.
\<close>

theorem createSDK_unauthorized:
  assumes "Wallet_new rt (WALLET_PRIVATE_KEY (globalConfig s)) = Inl e"
  shows "(invoke_getFeeData (call_method c) node = Inr fd \<longrightarrow>
            fst (createSDK_resume rt node c s) =
              Inl (ServerResponse 401
                     (''Unauthorized - '' @ message_or ''Invalid wallet configuration'' e)))
         \<and> (configured s \<and> map_of (PROVIDERS s) nid = Some h
              \<and> call_getFeeData node (heap s ! h) = Inr fd' \<longrightarrow>
            fst (createSDK rt node nid s) =
              Inl (ServerResponse 401
                     (''Unauthorized - '' @ message_or ''Invalid wallet configuration'' e))
            \<and> (\<forall>m. e = Error m \<longrightarrow>
                  fst (createSDK rt node nid s)
                    = Inl (ServerResponse 401 (''Unauthorized - '' @ m)))
            \<and> (\<forall>m. fst (createSDK rt node nid s) \<noteq> Inl (Error m)))"
  using assms
  by (auto simp: createSDK_unfold createSDK_resume_def configured_def Let_def)

text \<open>C9 on the server configured with the wallet key \<^verbatim>\<open>0xabcd\<close>, at network 137.\<close>

theorem createSDK_unauthorized_witness:
  "configured s_badkey
   \<and> map_of (PROVIDERS s_badkey) 137 = Some 2
   \<and> call_getFeeData (Inr fee0) (heap s_badkey ! 2) = Inr fee0
   \<and> Wallet_new rt0 (WALLET_PRIVATE_KEY (globalConfig s_badkey))
        = Inl (Error ''invalid private key'')
   \<and> fst (createSDK rt0 (Inr fee0) 137 s_badkey)
       = Inl (ServerResponse 401 ''Unauthorized - invalid private key'')
   \<and> fst (createSDK_resume rt0 (Inr fee0)
             \<lparr>call_networkId = 137, call_provider = 2, call_method = Original\<rparr> s_badkey)
       = Inl (ServerResponse 401 ''Unauthorized - invalid private key'')"
proof -
  let ?c = "\<lparr>call_networkId = 137, call_provider = 2, call_method = Original\<rparr>"
  have a: "configured s_badkey"
    by (simp add: s_badkey_eq configured_def)
  have b: "map_of (PROVIDERS s_badkey) 137 = Some 2"
    by (simp add: s_badkey_eq)
  have c: "call_getFeeData (Inr fee0) (heap s_badkey ! 2) = Inr fee0"
    by (simp add: s_badkey_eq call_getFeeData_unfold)
  have d: "Wallet_new rt0 (WALLET_PRIVATE_KEY (globalConfig s_badkey))
             = Inl (Error ''invalid private key'')"
    by (simp add: s_badkey_eq rt0_def)
  have i: "invoke_getFeeData (call_method ?c) (Inr fee0) = Inr fee0"
    by (simp add: invoke_getFeeData_def)
  note T = createSDK_unauthorized [OF d, of ?c "Inr fee0" fee0 137 2 fee0]
  from T i have r1: "fst (createSDK_resume rt0 (Inr fee0) ?c s_badkey)
                       = Inl (ServerResponse 401 ''Unauthorized - invalid private key'')"
    by simp
  from T a b c have r2: "fst (createSDK rt0 (Inr fee0) 137 s_badkey)
                       = Inl (ServerResponse 401 ''Unauthorized - invalid private key'')"
    by simp
  from a b c d r1 r2 show ?thesis
    by blast
qed

text \<open>
  C9 as stated fails. On the same server, with the same rejected wallet key, a call
  whose fee query is rejected throws the error of the fee query, and a call for a
  network id without provider throws the error that names the network: both are thrown
  before the wallet is built.
\<close>

theorem rejected_key_without_unauthorized:
  "Wallet_new rt0 (WALLET_PRIVATE_KEY (globalConfig s_badkey))
     = Inl (Error ''invalid private key'')
   \<and> configured s_badkey
   \<and> fst (createSDK rt0 (Inl (Error ''network down'')) 137 s_badkey)
       = Inl (Error ''network down'')
   \<and> fst (createSDK rt0 (Inr fee0) 1 s_badkey)
       = Inl (Error ''Provider not available for network 1. Configuration may not be properly set.'')"
proof -
  have d: "show_int 1 = ''1''"
    by (simp add: show_int_def digits.simps)
  have w: "Wallet_new rt0 (Some (JStr ''0xabcd'')) = Inl (Error ''invalid private key'')"
    by (simp add: rt0_def)
  show ?thesis
    using w by (simp add: s_badkey_eq configured_def createSDK_unfold call_getFeeData_unfold d)
qed

section \<open>The registry\<close>

lemma createProviders_success:
  assumes "createProviders rt config s = (Inr reg, s')"
  shows "\<exists>k. template rt (INFURA_API_KEY config) = Inr k
           \<and> reg = [(84532, length (heap s)), (8453, length (heap s) + 1),
                    (137, length (heap s) + 2), (690, length (heap s) + 3)]
           \<and> s' = s\<lparr>heap := heap s @
                 [\<lparr>connection_url = ''https://base-sepolia.infura.io/v3/'' @ k,
                   chainId = 84532, getFeeData = Original\<rparr>,
                  \<lparr>connection_url = ''https://base-mainnet.infura.io/v3/'' @ k,
                   chainId = 8453, getFeeData = Original\<rparr>,
                  \<lparr>connection_url = ''https://polygon-mainnet.infura.io/v3/'' @ k,
                   chainId = 137, getFeeData = Original\<rparr>,
                  \<lparr>connection_url = ''https://rpc.redstonechain.com'',
                   chainId = 690, getFeeData = Original\<rparr>]\<rparr>"
  using assms
  by (auto simp: createProviders_def DEFAULT_NETWORK_ID_def Let_def
        split: if_splits sum.splits)

lemma createProviders_failure:
  assumes "createProviders rt config s = (Inl e, s')"
  shows "s' = s \<and> (\<not> truthy_prop (INFURA_API_KEY config)
                    \<or> template rt (INFURA_API_KEY config) = Inl e)"
  using assms
  by (auto simp: createProviders_def Let_def split: if_splits sum.splits)

lemma createProviders_total:
  assumes "truthy_prop (INFURA_API_KEY config)"
    and "template rt (INFURA_API_KEY config) = Inr k"
  shows "\<exists>reg s'. createProviders rt config s = (Inr reg, s')"
  using assms by (simp add: createProviders_def Let_def)

lemma wf_handles:
  assumes "wf s" and "h \<in> set (map snd (PROVIDERS s))"
  shows "h < length (heap s)"
  using assms by (auto simp: wf_def list_all_iff)

lemma fresh_registry:
  assumes "wf s"
    and "reg = [(84532, length (heap s)), (8453, length (heap s) + 1),
                (137, length (heap s) + 2), (690, length (heap s) + 3)]"
  shows "full_registry reg \<and> distinct (map snd reg)
         \<and> set (map snd reg) \<inter> set (map snd (PROVIDERS s)) = {}"
proof -
  have "\<forall>h \<in> set (map snd (PROVIDERS s)). h < length (heap s)"
    using wf_handles [OF assms(1)] by blast
  then have "set (map snd reg) \<inter> set (map snd (PROVIDERS s)) = {}"
    unfolding assms(2) by fastforce
  moreover have "full_registry reg \<and> distinct (map snd reg)"
    unfolding assms(2) full_registry_def by simp
  ultimately show ?thesis by simp
qed

lemma update_success:
  assumes "fst (parseConfigFromURL rt src s) = Inr (Some c)"
    and "template rt (INFURA_API_KEY c) = Inr k"
  shows "globalConfig (snd (updateConfigFromURL rt src s)) = c
         \<and> PROVIDERS (snd (updateConfigFromURL rt src s))
             = [(84532, length (heap s)), (8453, length (heap s) + 1),
                (137, length (heap s) + 2), (690, length (heap s) + 3)]
         \<and> length (heap (snd (updateConfigFromURL rt src s))) = length (heap s) + 4
         \<and> (\<forall>h < length (heap s). heap (snd (updateConfigFromURL rt src s)) ! h = heap s ! h)"
proof -
  have p: "parse_try rt src = Inr (Some c)"
    using assms(1) by (simp add: parse_fst split: sum.splits)
  then have t: "truthy_prop (INFURA_API_KEY c)"
    by (auto simp: parse_try_def split: sum.splits option.splits if_splits)
  show ?thesis
    using p t assms(2)
    by (simp add: updateConfigFromURL_def parseConfigFromURL_def createProviders_def
          emit_def Let_def DEFAULT_NETWORK_ID_def nth_append)
qed

text \<open>
  C8. \<^verbatim>\<open>createProviders\<close>, when it returns, returns one provider for each of the network
  ids 84532, 8453, 137 and 690 and for no other: four new objects, distinct from each
  other and from every provider of the registry in place, each with its own chain id
  and the library's fee query. A reconfiguration that succeeds puts this mapping in
  place of the old one, so none of the old providers is in the new registry.
\<close>

theorem registry_build_complete_and_fresh:
  assumes "wf s"
  shows "(createProviders rt config s = (Inr reg, s') \<longrightarrow>
            full_registry reg \<and> distinct (map snd reg)
            \<and> set (map snd reg) \<inter> set (map snd (PROVIDERS s)) = {}
            \<and> (\<forall>(nid, h) \<in> set reg. h < length (heap s') \<and> length (heap s) \<le> h
                   \<and> chainId (heap s' ! h) = nid \<and> getFeeData (heap s' ! h) = Original))
         \<and> (fst (parseConfigFromURL rt src s) = Inr (Some c)
              \<and> template rt (INFURA_API_KEY c) = Inr k \<longrightarrow>
            full_registry (PROVIDERS (snd (updateConfigFromURL rt src s)))
            \<and> distinct (map snd (PROVIDERS (snd (updateConfigFromURL rt src s))))
            \<and> set (map snd (PROVIDERS (snd (updateConfigFromURL rt src s))))
                \<inter> set (map snd (PROVIDERS s)) = {}
            \<and> wf (snd (updateConfigFromURL rt src s)))"
proof (intro conjI impI)
  assume b: "createProviders rt config s = (Inr reg, s')"
  from createProviders_success [OF b] obtain k0 where
    reg: "reg = [(84532, length (heap s)), (8453, length (heap s) + 1),
                 (137, length (heap s) + 2), (690, length (heap s) + 3)]"
    and s': "s' = s\<lparr>heap := heap s @
                 [\<lparr>connection_url = ''https://base-sepolia.infura.io/v3/'' @ k0,
                   chainId = 84532, getFeeData = Original\<rparr>,
                  \<lparr>connection_url = ''https://base-mainnet.infura.io/v3/'' @ k0,
                   chainId = 8453, getFeeData = Original\<rparr>,
                  \<lparr>connection_url = ''https://polygon-mainnet.infura.io/v3/'' @ k0,
                   chainId = 137, getFeeData = Original\<rparr>,
                  \<lparr>connection_url = ''https://rpc.redstonechain.com'',
                   chainId = 690, getFeeData = Original\<rparr>]\<rparr>"
    by blast
  from fresh_registry [OF assms reg]
  show "full_registry reg" and "distinct (map snd reg)"
    and "set (map snd reg) \<inter> set (map snd (PROVIDERS s)) = {}"
    by simp_all
  show "\<forall>(nid, h) \<in> set reg. h < length (heap s') \<and> length (heap s) \<le> h
          \<and> chainId (heap s' ! h) = nid \<and> getFeeData (heap s' ! h) = Original"
    unfolding reg s' by (simp add: nth_append)
next
  assume a: "fst (parseConfigFromURL rt src s) = Inr (Some c)
             \<and> template rt (INFURA_API_KEY c) = Inr k"
  define s2 where "s2 = snd (updateConfigFromURL rt src s)"
  have u: "PROVIDERS s2 = [(84532, length (heap s)), (8453, length (heap s) + 1),
                (137, length (heap s) + 2), (690, length (heap s) + 3)]"
    and l: "length (heap s2) = length (heap s) + 4"
    using update_success [of rt src s c k] a unfolding s2_def by simp_all
  from fresh_registry [OF assms u]
  show "full_registry (PROVIDERS (snd (updateConfigFromURL rt src s)))"
    and "distinct (map snd (PROVIDERS (snd (updateConfigFromURL rt src s))))"
    and "set (map snd (PROVIDERS (snd (updateConfigFromURL rt src s))))
           \<inter> set (map snd (PROVIDERS s)) = {}"
    unfolding s2_def by simp_all
  show "wf (snd (updateConfigFromURL rt src s))"
    using u l unfolding s2_def [symmetric] wf_def by simp
qed

lemma wf_s_good: "wf s_good"
  by (simp add: wf_def s_good_eq)

text \<open>C8 on the configured server: a build, and a second reconfiguration.\<close>

theorem registry_build_complete_and_fresh_witness:
  "wf s_good
   \<and> PROVIDERS s_good = [(84532, 0), (8453, 1), (137, 2), (690, 3)]
   \<and> fst (createProviders rt0 (globalConfig s_good) s_good)
        = Inr [(84532, 4), (8453, 5), (137, 6), (690, 7)]
   \<and> full_registry [(84532, 4), (8453, 5), (137, 6), (690, 7)]
   \<and> set (map snd [(84532::int, 4::nat), (8453, 5), (137, 6), (690, 7)])
        \<inter> set (map snd (PROVIDERS s_good)) = {}
   \<and> chainId (heap (snd (createProviders rt0 (globalConfig s_good) s_good)) ! 6) = 137
   \<and> fst (parseConfigFromURL rt0 (src_of b64_good) s_good) = Inr (Some (globalConfig s_good))
   \<and> template rt0 (INFURA_API_KEY (globalConfig s_good)) = Inr ''key1''
   \<and> full_registry (PROVIDERS (snd (updateConfigFromURL rt0 (src_of b64_good) s_good)))
   \<and> set (map snd (PROVIDERS (snd (updateConfigFromURL rt0 (src_of b64_good) s_good))))
        \<inter> set (map snd (PROVIDERS s_good)) = {}
   \<and> wf (snd (updateConfigFromURL rt0 (src_of b64_good) s_good))"
proof -
  let ?reg = "[(84532::int, 4::nat), (8453, 5), (137, 6), (690, 7)]"
  let ?s' = "snd (createProviders rt0 (globalConfig s_good) s_good)"
  let ?s2 = "snd (updateConfigFromURL rt0 (src_of b64_good) s_good)"
  have b1: "fst (createProviders rt0 (globalConfig s_good) s_good) = Inr ?reg"
    by (simp add: s_good_eq createProviders_def DEFAULT_NETWORK_ID_def)
  then have b: "createProviders rt0 (globalConfig s_good) s_good = (Inr ?reg, ?s')"
    by (simp add: prod_eq_iff)
  have p: "fst (parseConfigFromURL rt0 (src_of b64_good) s_good) = Inr (Some (globalConfig s_good))"
    by (simp add: parse_fst parse_try_good s_good_eq)
  have t: "template rt0 (INFURA_API_KEY (globalConfig s_good)) = Inr ''key1''"
    by (simp add: s_good_eq)
  have r: "PROVIDERS s_good = [(84532, 0), (8453, 1), (137, 2), (690, 3)]"
    by (simp add: s_good_eq)
  note T = registry_build_complete_and_fresh
             [OF wf_s_good, of rt0 "globalConfig s_good" ?reg ?s' "src_of b64_good"
                "globalConfig s_good" "''key1''"]
  from T b have A: "full_registry ?reg
      \<and> set (map snd ?reg) \<inter> set (map snd (PROVIDERS s_good)) = {}
      \<and> (\<forall>(nid, h) \<in> set ?reg. h < length (heap ?s') \<and> length (heap s_good) \<le> h
             \<and> chainId (heap ?s' ! h) = nid \<and> getFeeData (heap ?s' ! h) = Original)"
    by blast
  then have c: "chainId (heap ?s' ! 6) = 137"
    by simp
  from T p t have B: "full_registry (PROVIDERS ?s2)
      \<and> set (map snd (PROVIDERS ?s2)) \<inter> set (map snd (PROVIDERS s_good)) = {}
      \<and> wf ?s2"
    by blast
  from wf_s_good r b1 A c p t B show ?thesis
    by blast
qed

section \<open>What a request changes\<close>

lemma place_limit_order_frame:
  "heap (snd (place_limit_order rt ex node nid pairId d price volume s))
     = heap (snd (createSDK rt node nid s))
   \<and> PROVIDERS (snd (place_limit_order rt ex node nid pairId d price volume s)) = PROVIDERS s
   \<and> globalConfig (snd (place_limit_order rt ex node nid pairId d price volume s))
       = globalConfig s"
  using createSDK_frame [of rt node nid s]
  by (cases "createSDK rt node nid s")
     (simp add: place_limit_order_def emit_def await_on_def Let_def split: sum.split)

lemma place_market_order_frame:
  "heap (snd (place_market_order rt ex node nid pairId d volume curPrice slippage s))
     = heap (snd (createSDK rt node nid s))
   \<and> PROVIDERS (snd (place_market_order rt ex node nid pairId d volume curPrice slippage s))
       = PROVIDERS s
   \<and> globalConfig (snd (place_market_order rt ex node nid pairId d volume curPrice slippage s))
       = globalConfig s"
  using createSDK_frame [of rt node nid s]
  by (cases "createSDK rt node nid s")
     (simp add: place_market_order_def emit_def await_on_def Let_def split: sum.split)

lemma cancel_limit_order_frame:
  "heap (snd (cancel_limit_order rt ex node nid pairId d point s))
     = heap (snd (createSDK rt node nid s))
   \<and> PROVIDERS (snd (cancel_limit_order rt ex node nid pairId d point s)) = PROVIDERS s
   \<and> globalConfig (snd (cancel_limit_order rt ex node nid pairId d point s)) = globalConfig s"
  using createSDK_frame [of rt node nid s]
  by (cases "createSDK rt node nid s")
     (simp add: cancel_limit_order_def emit_def Let_def split: sum.split)

lemma cancel_all_limit_order_frame:
  "heap (snd (cancel_all_limit_order rt ex node nid pairId s))
     = heap (snd (createSDK rt node nid s))
   \<and> PROVIDERS (snd (cancel_all_limit_order rt ex node nid pairId s)) = PROVIDERS s
   \<and> globalConfig (snd (cancel_all_limit_order rt ex node nid pairId s)) = globalConfig s"
  using createSDK_frame [of rt node nid s]
  by (cases "createSDK rt node nid s")
     (simp add: cancel_all_limit_order_def emit_def Let_def split: sum.split)

lemma claim_earning_frame:
  "heap (snd (claim_earning rt ex node nid pairId d point s))
     = heap (snd (createSDK rt node nid s))
   \<and> PROVIDERS (snd (claim_earning rt ex node nid pairId d point s)) = PROVIDERS s
   \<and> globalConfig (snd (claim_earning rt ex node nid pairId d point s)) = globalConfig s"
  using createSDK_frame [of rt node nid s]
  by (cases "createSDK rt node nid s")
     (simp add: claim_earning_def emit_def Let_def split: sum.split)

lemma claim_all_earnings_frame:
  "heap (snd (claim_all_earnings rt ex node nid pairId s))
     = heap (snd (createSDK rt node nid s))
   \<and> PROVIDERS (snd (claim_all_earnings rt ex node nid pairId s)) = PROVIDERS s
   \<and> globalConfig (snd (claim_all_earnings rt ex node nid pairId s)) = globalConfig s"
  using createSDK_frame [of rt node nid s]
  by (cases "createSDK rt node nid s")
     (simp add: claim_all_earnings_def emit_def Let_def split: sum.split)

text \<open>A request is a reconfiguration, or changes what its \<^verbatim>\<open>createSDK\<close> changes.\<close>

lemma step_cases:
  "(\<exists>src. r = Configure src)
   \<or> (\<exists>node nid. heap (step rt ex r s) = heap (snd (createSDK rt node nid s))
          \<and> PROVIDERS (step rt ex r s) = PROVIDERS s
          \<and> globalConfig (step rt ex r s) = globalConfig s)"
proof (cases r)
  case (Configure src)
  then show ?thesis by simp
next
  case (Session node nid)
  then show ?thesis using createSDK_frame [of rt node nid s] by auto
next
  case (PlaceLimitOrder node nid pairId d price volume)
  then show ?thesis
    using place_limit_order_frame [of rt ex node nid pairId d price volume s] by auto
next
  case (PlaceMarketOrder node nid pairId d volume curPrice slippage)
  then show ?thesis
    using place_market_order_frame [of rt ex node nid pairId d volume curPrice slippage s]
    by auto
next
  case (CancelLimitOrder node nid pairId d point)
  then show ?thesis
    using cancel_limit_order_frame [of rt ex node nid pairId d point s] by auto
next
  case (CancelAllLimitOrder node nid pairId)
  then show ?thesis
    using cancel_all_limit_order_frame [of rt ex node nid pairId s] by auto
next
  case (ClaimEarning node nid pairId d point)
  then show ?thesis
    using claim_earning_frame [of rt ex node nid pairId d point s] by auto
next
  case (ClaimAllEarnings node nid pairId)
  then show ?thesis
    using claim_all_earnings_frame [of rt ex node nid pairId s] by auto
qed

text \<open>The three outcomes of a reconfiguration.\<close>

lemma update_cases:
  "(globalConfig (snd (updateConfigFromURL rt src s)) = globalConfig s
      \<and> PROVIDERS (snd (updateConfigFromURL rt src s)) = PROVIDERS s
      \<and> heap (snd (updateConfigFromURL rt src s)) = heap s)
   \<or> (\<exists>c e. fst (parseConfigFromURL rt src s) = Inr (Some c)
         \<and> template rt (INFURA_API_KEY c) = Inl e
         \<and> globalConfig (snd (updateConfigFromURL rt src s)) = c
         \<and> PROVIDERS (snd (updateConfigFromURL rt src s)) = PROVIDERS s
         \<and> heap (snd (updateConfigFromURL rt src s)) = heap s)
   \<or> (\<exists>c k. fst (parseConfigFromURL rt src s) = Inr (Some c)
         \<and> template rt (INFURA_API_KEY c) = Inr k)"
proof (cases "parse_try rt src")
  case (Inl e)
  then show ?thesis
    by (simp add: updateConfigFromURL_def parseConfigFromURL_def emit_def)
next
  case (Inr r)
  show ?thesis
  proof (cases r)
    case None
    then show ?thesis
      using Inr by (simp add: updateConfigFromURL_def parseConfigFromURL_def emit_def)
  next
    case (Some c)
    have t: "truthy_prop (INFURA_API_KEY c)"
      using Inr Some
      by (auto simp: parse_try_def split: sum.splits option.splits if_splits)
    show ?thesis
    proof (cases "template rt (INFURA_API_KEY c)")
      case (Inl e)
      then show ?thesis
        using Inr Some t
        by (simp add: updateConfigFromURL_def parseConfigFromURL_def createProviders_def
              emit_def Let_def)
    next
      case (Inr k)
      then show ?thesis
        using \<open>parse_try rt src = Inr r\<close> Some by (simp add: parse_fst)
    qed
  qed
qed

section \<open>Invariants of the server\<close>

lemma wf_init: "wf init_state"
  by (simp add: wf_def init_state_def)

lemma wf_update:
  assumes "wf s"
  shows "wf (snd (updateConfigFromURL rt src s))"
proof -
  consider
    (same) "PROVIDERS (snd (updateConfigFromURL rt src s)) = PROVIDERS s"
           "heap (snd (updateConfigFromURL rt src s)) = heap s"
  | (built) c k where "fst (parseConfigFromURL rt src s) = Inr (Some c)"
           "template rt (INFURA_API_KEY c) = Inr k"
    using update_cases [of rt src s] by blast
  then show ?thesis
  proof cases
    case same
    then show ?thesis using assms by (simp add: wf_def)
  next
    case built
    from update_success [OF built] show ?thesis
      by (simp add: wf_def)
  qed
qed

lemma wf_step:
  assumes "wf s"
  shows "wf (step rt ex r s)"
proof -
  consider (conf) src where "r = Configure src"
    | (sess) node nid where "heap (step rt ex r s) = heap (snd (createSDK rt node nid s))"
        "PROVIDERS (step rt ex r s) = PROVIDERS s"
    using step_cases [of r rt ex s] by blast
  then show ?thesis
  proof cases
    case conf
    then show ?thesis
      using wf_update [OF assms, of rt src] by (simp add: configure_from_url_state)
  next
    case sess
    then show ?thesis
      using assms createSDK_frame [of rt node nid s] by (simp add: wf_def)
  qed
qed

lemma wf_run: "wf s \<Longrightarrow> wf (run rt ex reqs s)"
  by (induction reqs arbitrary: s) (simp_all add: wf_step)

text \<open>A provider whose fee query was replaced keeps the replacement and its gas price.\<close>

lemma createSDK_keeps_override:
  assumes "h < length (heap s)" and "getFeeData (heap s ! h) = Legacy g"
  shows "getFeeData (heap (snd (createSDK rt node nid s)) ! h) = Legacy g"
proof -
  consider (same) "heap (snd (createSDK rt node nid s)) = heap s"
    | (set) h' fd where "call_getFeeData node (heap s ! h') = Inr fd"
        "heap (snd (createSDK rt node nid s))
           = (heap s)[h' := (heap s ! h')\<lparr>getFeeData := Legacy (gasPrice fd)\<rparr>]"
    using createSDK_heap [of rt node nid s] by blast
  then show ?thesis
  proof cases
    case same
    then show ?thesis using assms by simp
  next
    case set
    show ?thesis
    proof (cases "h' = h")
      case True
      then have "gasPrice fd = g"
        using set(1) assms(2) by (auto simp: call_getFeeData_unfold)
      then show ?thesis
        using set(2) True assms(1) by simp
    next
      case False
      then show ?thesis
        using set(2) assms by simp
    qed
  qed
qed

lemma update_keeps_store:
  assumes "h < length (heap s)"
  shows "h < length (heap (snd (updateConfigFromURL rt src s)))
         \<and> heap (snd (updateConfigFromURL rt src s)) ! h = heap s ! h"
proof -
  consider
    (same) "heap (snd (updateConfigFromURL rt src s)) = heap s"
  | (built) c k where "fst (parseConfigFromURL rt src s) = Inr (Some c)"
           "template rt (INFURA_API_KEY c) = Inr k"
    using update_cases [of rt src s] by blast
  then show ?thesis
  proof cases
    case same
    then show ?thesis using assms by simp
  next
    case built
    from update_success [OF built] show ?thesis
      using assms by simp
  qed
qed

lemma step_keeps_override:
  assumes "h < length (heap s)" and "getFeeData (heap s ! h) = Legacy g"
  shows "h < length (heap (step rt ex r s))
         \<and> getFeeData (heap (step rt ex r s) ! h) = Legacy g"
proof -
  consider (conf) src where "r = Configure src"
    | (sess) node nid where "heap (step rt ex r s) = heap (snd (createSDK rt node nid s))"
    using step_cases [of r rt ex s] by blast
  then show ?thesis
  proof cases
    case conf
    then show ?thesis
      using update_keeps_store [OF assms(1), of rt src] assms(2)
      by (simp add: configure_from_url_state)
  next
    case sess
    then show ?thesis
      using createSDK_keeps_override [OF assms, of rt node nid]
        createSDK_frame [of rt node nid s] assms(1)
      by simp
  qed
qed

lemma run_keeps_override:
  "h < length (heap s) \<Longrightarrow> getFeeData (heap s ! h) = Legacy g \<Longrightarrow>
     h < length (heap (run rt ex reqs s))
     \<and> getFeeData (heap (run rt ex reqs s) ! h) = Legacy g"
proof (induction reqs arbitrary: s)
  case Nil
  then show ?case by simp
next
  case (Cons r reqs)
  from step_keeps_override [OF Cons.prems, of rt ex r]
  show ?case using Cons.IH by simp
qed

text \<open>When the requests are served one after the other, the gas price a session read
  stays.\<close>

lemma fee_override_sequential:
  assumes "wf s" and "createSDK rt node nid s = (Inr sdk, s1)"
  shows "\<exists>h fd. provider sdk = Some h \<and> map_of (PROVIDERS s) nid = Some h
           \<and> call_getFeeData node (heap s ! h) = Inr fd
           \<and> (\<forall>reqs node'.
                 call_getFeeData node' (heap (run rt ex reqs s1) ! h) =
                   Inr \<lparr>lastBaseFeePerGas = None, maxFeePerGas = None,
                        maxPriorityFeePerGas = None, gasPrice = gasPrice fd\<rparr>)"
proof -
  from createSDK_success [OF assms(2)] obtain h fd w where
    m: "map_of (PROVIDERS s) nid = Some h"
    and f: "call_getFeeData node (heap s ! h) = Inr fd"
    and sdk: "sdk = \<lparr>networkId = nid, provider = Some h, signer = Some w\<rparr>"
    and s1: "s1 = s\<lparr>heap := (heap s)[h := (heap s ! h)\<lparr>getFeeData := Legacy (gasPrice fd)\<rparr>]\<rparr>"
    by blast
  have "h \<in> set (map snd (PROVIDERS s))"
    using map_of_SomeD [OF m] by force
  then have lt: "h < length (heap s)"
    using wf_handles [OF assms(1)] by blast
  have a: "h < length (heap s1)" and b: "getFeeData (heap s1 ! h) = Legacy (gasPrice fd)"
    using lt by (simp_all add: s1)
  have "\<forall>reqs node'.
          call_getFeeData node' (heap (run rt ex reqs s1) ! h) =
            Inr \<lparr>lastBaseFeePerGas = None, maxFeePerGas = None,
                 maxPriorityFeePerGas = None, gasPrice = gasPrice fd\<rparr>"
    using run_keeps_override [OF a b, of rt ex] by (simp add: call_getFeeData_unfold)
  then show ?thesis
    using m f sdk by auto
qed

text \<open>Calls that overlap: what every event keeps.\<close>

lemma settled_append:
  "settled h g cs \<Longrightarrow> (call_provider c = h \<longrightarrow> call_method c = Legacy g)
     \<Longrightarrow> settled h g (cs @ [c])"
  by (simp add: settled_def)

lemma settled_remove:
  "settled h g cs \<Longrightarrow> settled h g (take i cs @ drop (Suc i) cs)"
  by (auto simp: settled_def list_all_iff dest: in_set_takeD in_set_dropD)

lemma settled_nth:
  "settled h g cs \<Longrightarrow> i < length cs \<Longrightarrow> call_provider (cs ! i) = h
     \<Longrightarrow> call_method (cs ! i) = Legacy g"
  by (auto simp: settled_def list_all_iff)

lemma resume_keeps_price:
  assumes "h < length (heap s)" and "getFeeData (heap s ! h) = Legacy g"
    and "call_provider c = h \<longrightarrow> call_method c = Legacy g"
  shows "getFeeData (heap (snd (createSDK_resume rt node c s)) ! h) = Legacy g"
proof -
  consider (same) "heap (snd (createSDK_resume rt node c s)) = heap s"
    | (set) fd where "invoke_getFeeData (call_method c) node = Inr fd"
        "heap (snd (createSDK_resume rt node c s))
           = (heap s)[call_provider c :=
                (heap s ! call_provider c)\<lparr>getFeeData := Legacy (gasPrice fd)\<rparr>]"
    using createSDK_resume_heap [of rt node c s] by blast
  then show ?thesis
  proof cases
    case same
    then show ?thesis using assms by simp
  next
    case set
    show ?thesis
    proof (cases "call_provider c = h")
      case True
      then have "gasPrice fd = g"
        using set(1) assms(3) by (auto simp: invoke_getFeeData_def)
      then show ?thesis
        using set(2) True assms(1) by simp
    next
      case False
      then show ?thesis
        using set(2) assms by simp
    qed
  qed
qed

lemma resume_keeps_legacy:
  assumes "h < length (heap s)" and "getFeeData (heap s ! h) = Legacy g"
  shows "\<exists>g'. getFeeData (heap (snd (createSDK_resume rt node c s)) ! h) = Legacy g'"
proof -
  consider (same) "heap (snd (createSDK_resume rt node c s)) = heap s"
    | (set) fd where "invoke_getFeeData (call_method c) node = Inr fd"
        "heap (snd (createSDK_resume rt node c s))
           = (heap s)[call_provider c :=
                (heap s ! call_provider c)\<lparr>getFeeData := Legacy (gasPrice fd)\<rparr>]"
    using createSDK_resume_heap [of rt node c s] by blast
  then show ?thesis
  proof cases
    case same
    then show ?thesis using assms by simp
  next
    case set
    from set(2) show ?thesis
      using assms by (cases "call_provider c = h") simp_all
  qed
qed

lemma occur_keeps_legacy:
  assumes "h < length (heap (shared srv))"
    and "\<exists>g. getFeeData (heap (shared srv) ! h) = Legacy g"
  shows "h < length (heap (shared (occur rt ev srv)))
         \<and> (\<exists>g. getFeeData (heap (shared (occur rt ev srv)) ! h) = Legacy g)"
proof (cases ev)
  case (Reconfigure src)
  then show ?thesis
    using update_keeps_store [OF assms(1), of rt src] assms(2)
    by (simp add: configure_from_url_state)
next
  case (Enter nid)
  then show ?thesis
    using assms by (simp split: sum.split)
next
  case (Resume i node)
  from assms(2) obtain g where "getFeeData (heap (shared srv) ! h) = Legacy g"
    by blast
  from resume_keeps_legacy [OF assms(1) this, of rt node "suspended srv ! i"]
  show ?thesis
    using Resume assms createSDK_resume_frame [of rt node "suspended srv ! i" "shared srv"]
    by simp
qed

lemma occur_keeps_price:
  assumes "h < length (heap (shared srv))"
    and "getFeeData (heap (shared srv) ! h) = Legacy g"
    and "settled h g (suspended srv)"
  shows "h < length (heap (shared (occur rt ev srv)))
         \<and> getFeeData (heap (shared (occur rt ev srv)) ! h) = Legacy g
         \<and> settled h g (suspended (occur rt ev srv))"
proof (cases ev)
  case (Reconfigure src)
  then show ?thesis
    using update_keeps_store [OF assms(1), of rt src] assms(2,3)
    by (simp add: configure_from_url_state)
next
  case (Enter nid)
  show ?thesis
  proof (cases "createSDK_enter nid (shared srv)")
    case (Inl e)
    then show ?thesis using Enter assms by simp
  next
    case (Inr c)
    from createSDK_enter_success [OF Inr]
    have "call_provider c = h \<longrightarrow> call_method c = Legacy g"
      using assms(2) by auto
    from settled_append [OF assms(3) this]
    show ?thesis using Enter Inr assms(1,2) by simp
  qed
next
  case (Resume i node)
  show ?thesis
  proof (cases "i < length (suspended srv)")
    case False
    then show ?thesis using Resume assms by simp
  next
    case True
    have "call_provider (suspended srv ! i) = h
            \<longrightarrow> call_method (suspended srv ! i) = Legacy g"
      using settled_nth [OF assms(3) True] by blast
    from resume_keeps_price [OF assms(1,2) this, of rt node]
    show ?thesis
      using Resume True settled_remove [OF assms(3), of i]
        createSDK_resume_frame [of rt node "suspended srv ! i" "shared srv"] assms(1)
      by simp
  qed
qed

lemma occurs_keeps_legacy:
  "h < length (heap (shared srv)) \<Longrightarrow>
   \<exists>g. getFeeData (heap (shared srv) ! h) = Legacy g \<Longrightarrow>
     \<exists>g. getFeeData (heap (shared (occurs rt evs srv)) ! h) = Legacy g"
proof (induction evs arbitrary: srv)
  case Nil
  then show ?case by simp
next
  case (Cons ev evs)
  from occur_keeps_legacy [OF Cons.prems, of rt ev]
  show ?case using Cons.IH by simp
qed

lemma occurs_keeps_price:
  "h < length (heap (shared srv)) \<Longrightarrow> getFeeData (heap (shared srv) ! h) = Legacy g \<Longrightarrow>
   settled h g (suspended srv) \<Longrightarrow>
     getFeeData (heap (shared (occurs rt evs srv)) ! h) = Legacy g"
proof (induction evs arbitrary: srv)
  case Nil
  then show ?case by simp
next
  case (Cons ev evs)
  from occur_keeps_price [OF Cons.prems, of rt ev]
  show ?case using Cons.IH by simp
qed

text \<open>The handles of a server point into the store, from the start and after every event.\<close>

lemma wf_server_init: "wf_server \<lparr>shared = init_state, suspended = []\<rparr>"
  by (simp add: wf_server_def wf_init)

lemma wf_server_occur:
  assumes "wf_server srv"
  shows "wf_server (occur rt ev srv)"
proof (cases ev)
  case (Reconfigure src)
  have "\<forall>c \<in> set (suspended srv).
          call_provider c < length (heap (snd (updateConfigFromURL rt src (shared srv))))"
    using assms update_keeps_store [of _ "shared srv" rt src]
    by (auto simp: wf_server_def list_all_iff)
  then show ?thesis
    using Reconfigure assms wf_update [of "shared srv" rt src]
    by (simp add: wf_server_def configure_from_url_state list_all_iff)
next
  case (Enter nid)
  show ?thesis
  proof (cases "createSDK_enter nid (shared srv)")
    case (Inl e)
    then show ?thesis using Enter assms by simp
  next
    case (Inr c)
    from createSDK_enter_success [OF Inr]
    have "call_provider c \<in> set (map snd (PROVIDERS (shared srv)))"
      by (force dest: map_of_SomeD)
    then have "call_provider c < length (heap (shared srv))"
      using wf_handles assms by (auto simp: wf_server_def)
    then show ?thesis
      using Enter Inr assms by (simp add: wf_server_def)
  qed
next
  case (Resume i node)
  show ?thesis
  proof (cases "i < length (suspended srv)")
    case False
    then show ?thesis using Resume assms by simp
  next
    case True
    have "\<forall>c \<in> set (take i (suspended srv) @ drop (Suc i) (suspended srv)).
            call_provider c < length (heap (shared srv))"
      using assms by (auto simp: wf_server_def list_all_iff dest: in_set_takeD in_set_dropD)
    then show ?thesis
      using Resume True assms
        createSDK_resume_frame [of rt node "suspended srv ! i" "shared srv"]
      by (simp add: wf_server_def wf_def list_all_iff)
  qed
qed

lemma wf_server_occurs: "wf_server srv \<Longrightarrow> wf_server (occurs rt evs srv)"
  by (induction evs arbitrary: srv) (simp_all add: wf_server_occur)

text \<open>
  C5, as the code has it. Let a suspended \<^verbatim>\<open>createSDK\<close> call continue and return a session,
  on the provider \<open>h\<close>, having read the fee data \<open>fd\<close>. After any further events,
  reconfigurations and parts of other calls among them, a fee query on \<open>h\<close> returns no
  base fee, no maximal fee and no priority fee, whatever the node would answer. It
  returns the gas price of \<open>fd\<close> when every other call on \<open>h\<close> that is suspended at that
  moment called a closure that holds this gas price; none is suspended when the requests
  are served one after the other.
\<close>

theorem fee_override_persists:
  assumes "wf_server srv" and "i < length (suspended srv)"
    and "createSDK_resume rt node (suspended srv ! i) (shared srv) = (Inr sdk, s1)"
    and "others = take i (suspended srv) @ drop (Suc i) (suspended srv)"
  shows "\<exists>h fd. provider sdk = Some h \<and> h = call_provider (suspended srv ! i)
           \<and> invoke_getFeeData (call_method (suspended srv ! i)) node = Inr fd
           \<and> (\<forall>evs node'. \<exists>g.
                 call_getFeeData node'
                   (heap (shared (occurs rt evs \<lparr>shared = s1, suspended = others\<rparr>)) ! h) =
                   Inr \<lparr>lastBaseFeePerGas = None, maxFeePerGas = None,
                        maxPriorityFeePerGas = None, gasPrice = g\<rparr>)
           \<and> (settled h (gasPrice fd) others \<longrightarrow>
                (\<forall>evs node'.
                   call_getFeeData node'
                     (heap (shared (occurs rt evs \<lparr>shared = s1, suspended = others\<rparr>)) ! h) =
                     Inr \<lparr>lastBaseFeePerGas = None, maxFeePerGas = None,
                          maxPriorityFeePerGas = None, gasPrice = gasPrice fd\<rparr>))"
proof -
  let ?c = "suspended srv ! i"
  let ?h = "call_provider ?c"
  from createSDK_resume_success [OF assms(3)] obtain fd w where
    f: "invoke_getFeeData (call_method ?c) node = Inr fd"
    and sdk: "sdk = \<lparr>networkId = call_networkId ?c, provider = Some ?h, signer = Some w\<rparr>"
    and s1: "s1 = (shared srv)\<lparr>heap := (heap (shared srv))
                    [?h := (heap (shared srv) ! ?h)\<lparr>getFeeData := Legacy (gasPrice fd)\<rparr>]\<rparr>"
    by blast
  have lt: "?h < length (heap (shared srv))"
    using assms(1,2) by (auto simp: wf_server_def list_all_iff)
  let ?srv = "\<lparr>shared = s1, suspended = others\<rparr>"
  have a: "?h < length (heap (shared ?srv))"
    and b: "getFeeData (heap (shared ?srv) ! ?h) = Legacy (gasPrice fd)"
    using lt by (simp_all add: s1)
  have n: "\<forall>evs node'. \<exists>g.
             call_getFeeData node' (heap (shared (occurs rt evs ?srv)) ! ?h) =
               Inr \<lparr>lastBaseFeePerGas = None, maxFeePerGas = None,
                    maxPriorityFeePerGas = None, gasPrice = g\<rparr>"
  proof (intro allI)
    fix evs node'
    from b have "\<exists>g. getFeeData (heap (shared ?srv) ! ?h) = Legacy g"
      by blast
    from occurs_keeps_legacy [OF a this, of rt evs] obtain g where
      "getFeeData (heap (shared (occurs rt evs ?srv)) ! ?h) = Legacy g"
      by blast
    then show "\<exists>g. call_getFeeData node' (heap (shared (occurs rt evs ?srv)) ! ?h) =
                 Inr \<lparr>lastBaseFeePerGas = None, maxFeePerGas = None,
                      maxPriorityFeePerGas = None, gasPrice = g\<rparr>"
      by (simp add: call_getFeeData_unfold)
  qed
  have p: "settled ?h (gasPrice fd) others \<longrightarrow>
             (\<forall>evs node'.
                call_getFeeData node' (heap (shared (occurs rt evs ?srv)) ! ?h) =
                  Inr \<lparr>lastBaseFeePerGas = None, maxFeePerGas = None,
                       maxPriorityFeePerGas = None, gasPrice = gasPrice fd\<rparr>)"
  proof (intro impI allI)
    fix evs node'
    assume "settled ?h (gasPrice fd) others"
    then have "settled ?h (gasPrice fd) (suspended ?srv)"
      by simp
    from occurs_keeps_price [OF a b this, of rt evs]
    show "call_getFeeData node' (heap (shared (occurs rt evs ?srv)) ! ?h) =
            Inr \<lparr>lastBaseFeePerGas = None, maxFeePerGas = None,
                 maxPriorityFeePerGas = None, gasPrice = gasPrice fd\<rparr>"
      by (simp add: call_getFeeData_unfold)
  qed
  from f sdk n p show ?thesis
    by auto
qed

text \<open>
  C5 on the configured server: a call for network 8453 is suspended alone and continues
  while the node quotes a gas price of 9. Then, while the node quotes 11: a call on the
  same provider, a reconfiguration, a call on the provider that replaced it, and both
  continue. The first provider still answers 9.
\<close>

theorem fee_override_persists_witness:
  "wf_server \<lparr>shared = s_good,
             suspended = [\<lparr>call_networkId = 8453, call_provider = 1, call_method = Original\<rparr>]\<rparr>
   \<and> occur rt0 (Enter 8453) \<lparr>shared = s_good, suspended = []\<rparr>
       = \<lparr>shared = s_good,
          suspended = [\<lparr>call_networkId = 8453, call_provider = 1, call_method = Original\<rparr>]\<rparr>
   \<and> fst (createSDK_resume rt0 (Inr fee0)
             \<lparr>call_networkId = 8453, call_provider = 1, call_method = Original\<rparr> s_good) =
        Inr \<lparr>networkId = 8453, provider = Some 1,
             signer = Some \<lparr>address = ''0x14791697260E4c9A71f18484C9f997B308e59325''\<rparr>\<rparr>
   \<and> settled 1 (Some 9) []
   \<and> call_getFeeData (Inr fee1)
        (heap (shared (occurs rt0
                 [Enter 8453, Reconfigure (src_of b64_good), Enter 8453,
                  Resume 0 (Inr fee1), Resume 0 (Inr fee1)]
                 \<lparr>shared = snd (createSDK_resume rt0 (Inr fee0)
                     \<lparr>call_networkId = 8453, call_provider = 1, call_method = Original\<rparr> s_good),
                  suspended = []\<rparr>)) ! 1)
       = Inr \<lparr>lastBaseFeePerGas = None, maxFeePerGas = None,
              maxPriorityFeePerGas = None, gasPrice = Some 9\<rparr>"
proof -
  let ?c = "\<lparr>call_networkId = 8453, call_provider = 1, call_method = Original\<rparr>"
  let ?srv = "\<lparr>shared = s_good, suspended = [?c]\<rparr>"
  let ?sdk = "\<lparr>networkId = 8453, provider = Some 1,
               signer = Some \<lparr>address = ''0x14791697260E4c9A71f18484C9f997B308e59325''\<rparr>\<rparr>"
  let ?s1 = "snd (createSDK_resume rt0 (Inr fee0) ?c s_good)"
  let ?evs = "[Enter 8453, Reconfigure (src_of b64_good), Enter 8453,
               Resume 0 (Inr fee1), Resume 0 (Inr fee1)]"
  have w: "wf_server ?srv"
    by (simp add: wf_server_def wf_s_good) (simp add: s_good_eq)
  have en: "occur rt0 (Enter 8453) \<lparr>shared = s_good, suspended = []\<rparr> = ?srv"
    by (simp add: createSDK_enter_def s_good_eq)
  have a: "fst (createSDK_resume rt0 (Inr fee0) ?c s_good) = Inr ?sdk"
    by (simp add: createSDK_resume_def invoke_getFeeData_def s_good_eq rt0_def setSigner_def)
  then have e: "createSDK_resume rt0 (Inr fee0) (suspended ?srv ! 0) (shared ?srv) = (Inr ?sdk, ?s1)"
    by (simp add: prod_eq_iff)
  have i: "0 < length (suspended ?srv)"
    by simp
  have o: "[] = take 0 (suspended ?srv) @ drop (Suc 0) (suspended ?srv)"
    by simp
  have st: "settled 1 (Some 9) []"
    by (simp add: settled_def)
  from fee_override_persists [OF w i e o] obtain h fd where
    h: "provider ?sdk = Some h"
    and fd: "invoke_getFeeData (call_method (suspended ?srv ! 0)) (Inr fee0) = Inr fd"
    and q: "settled h (gasPrice fd) [] \<longrightarrow>
              (\<forall>evs node'.
                 call_getFeeData node'
                   (heap (shared (occurs rt0 evs \<lparr>shared = ?s1, suspended = []\<rparr>)) ! h) =
                   Inr \<lparr>lastBaseFeePerGas = None, maxFeePerGas = None,
                        maxPriorityFeePerGas = None, gasPrice = gasPrice fd\<rparr>)"
    by blast
  have h1: "h = 1"
    using h by simp
  have "fd = fee0"
    using fd by (simp add: invoke_getFeeData_def)
  then have g: "gasPrice fd = Some 9"
    by (simp add: fee0_def)
  from q st have "call_getFeeData (Inr fee1)
        (heap (shared (occurs rt0 ?evs \<lparr>shared = ?s1, suspended = []\<rparr>)) ! 1)
       = Inr \<lparr>lastBaseFeePerGas = None, maxFeePerGas = None,
              maxPriorityFeePerGas = None, gasPrice = Some 9\<rparr>"
    unfolding h1 g by blast
  with w en a st show ?thesis
    by blast
qed

text \<open>
  C5 as stated fails when two calls overlap. On the configured server two calls for
  network 8453 are suspended in the fee query of the library. The first continues
  while the node quotes 9: its session is created and the provider answers 9. The
  second continues with the node's answer 11 and assigns its closure: the provider
  now answers 11.
\<close>

theorem overlapping_call_replaces_gas_price:
  "suspended (occurs rt0 [Enter 8453, Enter 8453] \<lparr>shared = s_good, suspended = []\<rparr>)
     = [\<lparr>call_networkId = 8453, call_provider = 1, call_method = Original\<rparr>,
        \<lparr>call_networkId = 8453, call_provider = 1, call_method = Original\<rparr>]
   \<and> fst (createSDK_resume rt0 (Inr fee0)
             \<lparr>call_networkId = 8453, call_provider = 1, call_method = Original\<rparr> s_good) =
        Inr \<lparr>networkId = 8453, provider = Some 1,
             signer = Some \<lparr>address = ''0x14791697260E4c9A71f18484C9f997B308e59325''\<rparr>\<rparr>
   \<and> call_getFeeData (Inr fee1)
        (heap (shared (occurs rt0 [Enter 8453, Enter 8453, Resume 0 (Inr fee0)]
                         \<lparr>shared = s_good, suspended = []\<rparr>)) ! 1)
       = Inr \<lparr>lastBaseFeePerGas = None, maxFeePerGas = None,
              maxPriorityFeePerGas = None, gasPrice = Some 9\<rparr>
   \<and> call_getFeeData (Inr fee1)
        (heap (shared (occurs rt0 [Enter 8453, Enter 8453, Resume 0 (Inr fee0),
                                   Resume 0 (Inr fee1)]
                         \<lparr>shared = s_good, suspended = []\<rparr>)) ! 1)
       = Inr \<lparr>lastBaseFeePerGas = None, maxFeePerGas = None,
              maxPriorityFeePerGas = None, gasPrice = Some 11\<rparr>"
  by (simp add: createSDK_enter_def createSDK_resume_def invoke_getFeeData_def
        call_getFeeData_def s_good_eq rt0_def setSigner_def fee0_def fee1_def)

lemma registry_complete_init: "registry_complete rt init_state"
  by (simp add: registry_complete_def configured_def init_state_def)

lemma registry_complete_step:
  assumes "registry_complete rt s"
  shows "registry_complete rt (step rt ex r s)"
proof -
  consider (conf) src where "r = Configure src"
    | (sess) "PROVIDERS (step rt ex r s) = PROVIDERS s"
        "globalConfig (step rt ex r s) = globalConfig s"
    using step_cases [of r rt ex s] by blast
  then show ?thesis
  proof cases
    case sess
    then show ?thesis
      using assms by (simp add: registry_complete_def configured_def)
  next
    case conf
    let ?s' = "snd (updateConfigFromURL rt src s)"
    have st: "step rt ex r s = ?s'"
      using conf by (simp add: configure_from_url_state)
    consider
      (same) "globalConfig ?s' = globalConfig s" "PROVIDERS ?s' = PROVIDERS s"
    | (thrown) c e where "template rt (INFURA_API_KEY c) = Inl e" "globalConfig ?s' = c"
    | (built) c k where "fst (parseConfigFromURL rt src s) = Inr (Some c)"
        "template rt (INFURA_API_KEY c) = Inr k"
      using update_cases [of rt src s] by blast
    then show ?thesis
    proof cases
      case same
      then show ?thesis
        using assms unfolding st by (simp add: registry_complete_def configured_def)
    next
      case thrown
      then show ?thesis
        unfolding st by (simp add: registry_complete_def)
    next
      case built
      from update_success [OF built] show ?thesis
        unfolding st by (simp add: registry_complete_def full_registry_def)
    qed
  qed
qed

lemma registry_complete_run:
  "registry_complete rt s \<Longrightarrow> registry_complete rt (run rt ex reqs s)"
  by (induction reqs arbitrary: s) (simp_all add: registry_complete_step)

text \<open>
  C10, as the code keeps it. From the start and after every request: when both fields
  of \<^verbatim>\<open>globalConfig\<close> are set and the API key can be spliced into an endpoint URL, which
  is so for every string, \<^verbatim>\<open>PROVIDERS\<close> has an entry for each of the network ids 84532,
  8453, 137 and 690 and no other entry.
\<close>

theorem registry_complete_invariant:
  "registry_complete rt init_state
   \<and> (registry_complete rt s \<longrightarrow> registry_complete rt (step rt ex r s))
   \<and> registry_complete rt (run rt ex reqs init_state)
   \<and> isl (template rt (Some (JStr k))) = False"
  using registry_complete_init [of rt] registry_complete_step [of rt s ex r]
    registry_complete_run [OF registry_complete_init, of rt ex reqs]
  by simp

text \<open>C10 after the reconfiguration with the good source.\<close>

theorem registry_complete_invariant_witness:
  "run rt0 ex0 [Configure (src_of b64_good)] init_state = s_good
   \<and> configured s_good
   \<and> \<not> isl (template rt0 (INFURA_API_KEY (globalConfig s_good)))
   \<and> registry_complete rt0 init_state
   \<and> registry_complete rt0 (step rt0 ex0 (Configure (src_of b64_good)) init_state)
   \<and> full_registry (PROVIDERS s_good)"
proof -
  have a: "run rt0 ex0 [Configure (src_of b64_good)] init_state = s_good"
    by (simp add: s_good_def)
  have b: "configured s_good"
    by (simp add: configured_def s_good_eq)
  have c: "\<not> isl (template rt0 (INFURA_API_KEY (globalConfig s_good)))"
    by (simp add: s_good_eq)
  note T = registry_complete_invariant
             [of rt0 init_state ex0 "Configure (src_of b64_good)"
                "[Configure (src_of b64_good)]" "''key1''"]
  from T have d: "registry_complete rt0 init_state"
    and e: "registry_complete rt0 (step rt0 ex0 (Configure (src_of b64_good)) init_state)"
    and f: "registry_complete rt0 (run rt0 ex0 [Configure (src_of b64_good)] init_state)"
    by blast+
  from f b c have "full_registry (PROVIDERS s_good)"
    unfolding a registry_complete_def by blast
  with a b c d e show ?thesis
    by blast
qed

text \<open>
  C10 as stated fails. The source whose API key is the object \<^verbatim>\<open>{"toString":1}\<close> decodes,
  since an object is truthy; \<^verbatim>\<open>createProviders\<close> throws a TypeError when the template
  literal converts the key, \<^verbatim>\<open>updateConfigFromURL\<close> catches it after it has assigned
  \<^verbatim>\<open>globalConfig\<close>. Both fields are set and the registry is empty, so a session fails for
  want of a provider.
\<close>

theorem configured_with_empty_registry:
  "fst (parseConfigFromURL rt0 (src_of b64_objkey) init_state) =
      Inr (Some \<lparr>WALLET_PRIVATE_KEY = Some (JStr ''0xabcd''),
                 INFURA_API_KEY = Some (JObj [(''toString'', JNum 1)])\<rparr>)
   \<and> configured (snd (configure_from_url rt0 (src_of b64_objkey) init_state))
   \<and> PROVIDERS (snd (configure_from_url rt0 (src_of b64_objkey) init_state)) = []
   \<and> fst (createSDK rt0 (Inr fee0) 84532
             (snd (configure_from_url rt0 (src_of b64_objkey) init_state)))
       = Inl (Error ''Provider not available for network 84532. Configuration may not be properly set.'')"
proof -
  have ts: "ToString rt0 (JObj [(''toString'', JNum 1)])
              = Inl (Error ''Cannot convert object to primitive value'')"
    by (simp add: rt0_def)
  have s: "snd (configure_from_url rt0 (src_of b64_objkey) init_state) =
     \<lparr>globalConfig =
        \<lparr>WALLET_PRIVATE_KEY = Some (JStr ''0xabcd''),
         INFURA_API_KEY = Some (JObj [(''toString'', JNum 1)])\<rparr>,
      PROVIDERS = [], heap = [],
      effects =
        [ConsoleLog ''Config parsed from URL successfully'',
         ConsoleError ''Failed to initialize providers:''
           ''Cannot convert object to primitive value''],
      waited = 0\<rparr>"
    by (simp add: configure_from_url_def updateConfigFromURL_def parseConfigFromURL_def
          parse_try_objkey createProviders_def emit_def init_state_def ts)
  have d: "show_int 84532 = ''84532''"
    by (simp add: show_int_def digits.simps)
  show ?thesis
    unfolding s by (simp add: parse_fst parse_try_objkey configured_def createSDK_unfold d)
qed

section \<open>The state-mutating tools\<close>

lemma place_limit_order_run:
  assumes "createSDK rt node nid s = (Inr sdk0, s1)"
    and "sdk = setProvider (map_of (PROVIDERS s1) nid) sdk0"
    and "placeLimitOrder ex sdk pairId d price volume = Inr info"
  shows "effects (snd (place_limit_order rt ex node nid pairId d price volume s))
           = effects s @ [ExchangeCall ''placeLimitOrder'' pairId, SetTimeout (settle_delay nid),
                          ExchangeCall ''updateKline'' pairId]
         \<and> fst (place_limit_order rt ex node nid pairId d price volume s)
             = (case updateKline ex sdk pairId of
                  Inl e \<Rightarrow> Inl e
                | Inr u \<Rightarrow> Inr (JSON_stringify rt info))"
  using assms createSDK_frame [of rt node nid s]
  by (simp add: place_limit_order_def emit_def await_on_def Let_def split: sum.split)

lemma place_market_order_run:
  assumes "createSDK rt node nid s = (Inr sdk0, s1)"
    and "sdk = setProvider (map_of (PROVIDERS s1) nid) sdk0"
    and "placeMarketOrder ex sdk pairId d volume curPrice slippage = Inr info"
  shows "effects (snd (place_market_order rt ex node nid pairId d volume curPrice slippage s))
           = effects s @ [ExchangeCall ''placeMarketOrder'' pairId, SetTimeout (settle_delay nid),
                          ExchangeCall ''updateKline'' pairId]
         \<and> fst (place_market_order rt ex node nid pairId d volume curPrice slippage s)
             = (case updateKline ex sdk pairId of
                  Inl e \<Rightarrow> Inl e
                | Inr u \<Rightarrow> Inr (JSON_stringify rt info))"
  using assms createSDK_frame [of rt node nid s]
  by (simp add: place_market_order_def emit_def await_on_def Let_def split: sum.split)

lemma cancel_limit_order_run:
  assumes "createSDK rt node nid s = (Inr sdk0, s1)"
    and "sdk = setProvider (map_of (PROVIDERS s1) nid) sdk0"
    and "cancelLimitOrder ex sdk pairId d point = Inr info"
  shows "effects (snd (cancel_limit_order rt ex node nid pairId d point s))
           = effects s @ [ExchangeCall ''cancelLimitOrder'' pairId]
         \<and> fst (cancel_limit_order rt ex node nid pairId d point s)
             = Inr (JSON_stringify rt info)"
  using assms createSDK_frame [of rt node nid s]
  by (simp add: cancel_limit_order_def emit_def Let_def)

lemma cancel_all_limit_order_run:
  assumes "createSDK rt node nid s = (Inr sdk0, s1)"
    and "sdk = setProvider (map_of (PROVIDERS s1) nid) sdk0"
    and "cancelAllLimitOrder ex sdk pairId = Inr info"
  shows "effects (snd (cancel_all_limit_order rt ex node nid pairId s))
           = effects s @ [ExchangeCall ''cancelAllLimitOrder'' pairId]
         \<and> fst (cancel_all_limit_order rt ex node nid pairId s)
             = Inr (JSON_stringify rt info)"
  using assms createSDK_frame [of rt node nid s]
  by (simp add: cancel_all_limit_order_def emit_def Let_def)

lemma claim_earning_run:
  assumes "createSDK rt node nid s = (Inr sdk0, s1)"
    and "sdk = setProvider (map_of (PROVIDERS s1) nid) sdk0"
    and "claimEarning ex sdk pairId d point = Inr info"
  shows "effects (snd (claim_earning rt ex node nid pairId d point s))
           = effects s @ [ExchangeCall ''claimEarning'' pairId]
         \<and> fst (claim_earning rt ex node nid pairId d point s)
             = Inr (JSON_stringify rt info)"
  using assms createSDK_frame [of rt node nid s]
  by (simp add: claim_earning_def emit_def Let_def)

lemma claim_all_earnings_run:
  assumes "createSDK rt node nid s = (Inr sdk0, s1)"
    and "sdk = setProvider (map_of (PROVIDERS s1) nid) sdk0"
    and "claimAllEarnings ex sdk pairId = Inr info"
  shows "effects (snd (claim_all_earnings rt ex node nid pairId s))
           = effects s @ [ExchangeCall ''claimAllEarnings'' pairId]
         \<and> fst (claim_all_earnings rt ex node nid pairId s)
             = Inr (JSON_stringify rt info)"
  using assms createSDK_frame [of rt node nid s]
  by (simp add: claim_all_earnings_def emit_def Let_def)

lemma exchange_calls_append:
  "exchange_calls (xs @ ys) = exchange_calls xs @ exchange_calls ys"
  by (induction xs rule: exchange_calls.induct) simp_all

text \<open>No tool is held back by a timer.\<close>

lemma placing_waited:
  "waited (snd (place_limit_order rt ex node nid pairId d price volume s)) = waited s
   \<and> waited (snd (place_market_order rt ex node nid pairId d volume curPrice slippage s))
       = waited s"
  using createSDK_frame [of rt node nid s]
  by (cases "createSDK rt node nid s")
     (simp add: place_limit_order_def place_market_order_def emit_def await_on_def Let_def
        split: sum.split)

lemma settle_delay_listed:
  "nid \<in> {84532, 8453, 137, 690} \<Longrightarrow> settle_delay nid = 3000"
  by (auto simp: settle_delay_def BLOCK_TIME_def)

text \<open>
  C2, as the code has it. Let the session be created and the call to the exchange
  client return a transaction. The two order-placing tools then call \<^verbatim>\<open>updateKline\<close> for
  the pair, after that call and before they return, and return the serialised
  transaction when the refresh returns. The two cancelling and the two claiming tools
  make the one call to the exchange client, no refresh, and return the serialised
  transaction.
\<close>

theorem post_trade_refresh_only_when_placing:
  assumes "createSDK rt node nid s = (Inr sdk0, s1)"
    and "sdk = setProvider (map_of (PROVIDERS s1) nid) sdk0"
  shows "(placeLimitOrder ex sdk pairId d price volume = Inr info1 \<longrightarrow>
            exchange_calls (effects (snd (place_limit_order rt ex node nid pairId d price volume s)))
              = exchange_calls (effects s)
                @ [(''placeLimitOrder'', pairId), (''updateKline'', pairId)]
            \<and> (updateKline ex sdk pairId = Inr () \<longrightarrow>
                 fst (place_limit_order rt ex node nid pairId d price volume s)
                   = Inr (JSON_stringify rt info1)))
         \<and> (placeMarketOrder ex sdk pairId d volume curPrice slippage = Inr info2 \<longrightarrow>
            exchange_calls
              (effects (snd (place_market_order rt ex node nid pairId d volume curPrice slippage s)))
              = exchange_calls (effects s)
                @ [(''placeMarketOrder'', pairId), (''updateKline'', pairId)]
            \<and> (updateKline ex sdk pairId = Inr () \<longrightarrow>
                 fst (place_market_order rt ex node nid pairId d volume curPrice slippage s)
                   = Inr (JSON_stringify rt info2)))
         \<and> (cancelLimitOrder ex sdk pairId d point = Inr info3 \<longrightarrow>
            exchange_calls (effects (snd (cancel_limit_order rt ex node nid pairId d point s)))
              = exchange_calls (effects s) @ [(''cancelLimitOrder'', pairId)]
            \<and> fst (cancel_limit_order rt ex node nid pairId d point s)
                = Inr (JSON_stringify rt info3))
         \<and> (cancelAllLimitOrder ex sdk pairId = Inr info4 \<longrightarrow>
            exchange_calls (effects (snd (cancel_all_limit_order rt ex node nid pairId s)))
              = exchange_calls (effects s) @ [(''cancelAllLimitOrder'', pairId)]
            \<and> fst (cancel_all_limit_order rt ex node nid pairId s)
                = Inr (JSON_stringify rt info4))
         \<and> (claimEarning ex sdk pairId d point = Inr info5 \<longrightarrow>
            exchange_calls (effects (snd (claim_earning rt ex node nid pairId d point s)))
              = exchange_calls (effects s) @ [(''claimEarning'', pairId)]
            \<and> fst (claim_earning rt ex node nid pairId d point s)
                = Inr (JSON_stringify rt info5))
         \<and> (claimAllEarnings ex sdk pairId = Inr info6 \<longrightarrow>
            exchange_calls (effects (snd (claim_all_earnings rt ex node nid pairId s)))
              = exchange_calls (effects s) @ [(''claimAllEarnings'', pairId)]
            \<and> fst (claim_all_earnings rt ex node nid pairId s)
                = Inr (JSON_stringify rt info6))"
proof (intro conjI impI)
  assume a: "placeLimitOrder ex sdk pairId d price volume = Inr info1"
  from place_limit_order_run [OF assms a]
  show "exchange_calls (effects (snd (place_limit_order rt ex node nid pairId d price volume s)))
          = exchange_calls (effects s)
            @ [(''placeLimitOrder'', pairId), (''updateKline'', pairId)]"
    by (simp add: exchange_calls_append)
  assume "updateKline ex sdk pairId = Inr ()"
  with place_limit_order_run [OF assms a]
  show "fst (place_limit_order rt ex node nid pairId d price volume s)
          = Inr (JSON_stringify rt info1)"
    by simp
next
  assume a: "placeMarketOrder ex sdk pairId d volume curPrice slippage = Inr info2"
  from place_market_order_run [OF assms a]
  show "exchange_calls
          (effects (snd (place_market_order rt ex node nid pairId d volume curPrice slippage s)))
          = exchange_calls (effects s)
            @ [(''placeMarketOrder'', pairId), (''updateKline'', pairId)]"
    by (simp add: exchange_calls_append)
  assume "updateKline ex sdk pairId = Inr ()"
  with place_market_order_run [OF assms a]
  show "fst (place_market_order rt ex node nid pairId d volume curPrice slippage s)
          = Inr (JSON_stringify rt info2)"
    by simp
next
  assume a: "cancelLimitOrder ex sdk pairId d point = Inr info3"
  from cancel_limit_order_run [OF assms a]
  show "exchange_calls (effects (snd (cancel_limit_order rt ex node nid pairId d point s)))
          = exchange_calls (effects s) @ [(''cancelLimitOrder'', pairId)]"
    and "fst (cancel_limit_order rt ex node nid pairId d point s)
          = Inr (JSON_stringify rt info3)"
    by (simp_all add: exchange_calls_append)
next
  assume a: "cancelAllLimitOrder ex sdk pairId = Inr info4"
  from cancel_all_limit_order_run [OF assms a]
  show "exchange_calls (effects (snd (cancel_all_limit_order rt ex node nid pairId s)))
          = exchange_calls (effects s) @ [(''cancelAllLimitOrder'', pairId)]"
    and "fst (cancel_all_limit_order rt ex node nid pairId s)
          = Inr (JSON_stringify rt info4)"
    by (simp_all add: exchange_calls_append)
next
  assume a: "claimEarning ex sdk pairId d point = Inr info5"
  from claim_earning_run [OF assms a]
  show "exchange_calls (effects (snd (claim_earning rt ex node nid pairId d point s)))
          = exchange_calls (effects s) @ [(''claimEarning'', pairId)]"
    and "fst (claim_earning rt ex node nid pairId d point s)
          = Inr (JSON_stringify rt info5)"
    by (simp_all add: exchange_calls_append)
next
  assume a: "claimAllEarnings ex sdk pairId = Inr info6"
  from claim_all_earnings_run [OF assms a]
  show "exchange_calls (effects (snd (claim_all_earnings rt ex node nid pairId s)))
          = exchange_calls (effects s) @ [(''claimAllEarnings'', pairId)]"
    and "fst (claim_all_earnings rt ex node nid pairId s)
          = Inr (JSON_stringify rt info6)"
    by (simp_all add: exchange_calls_append)
qed

section \<open>The tools on the configured server\<close>

lemma session_good:
  "createSDK rt0 (Inr fee0) 8453 s_good =
     (Inr \<lparr>networkId = 8453, provider = Some 1,
           signer = Some \<lparr>address = ''0x14791697260E4c9A71f18484C9f997B308e59325''\<rparr>\<rparr>,
      snd (createSDK rt0 (Inr fee0) 8453 s_good))"
  by (simp add: prod_eq_iff createSDK_unfold s_good_eq call_getFeeData_unfold rt0_def setSigner_def)

lemma rebind_good:
  "setProvider (map_of (PROVIDERS (snd (createSDK rt0 (Inr fee0) 8453 s_good))) 8453)
     \<lparr>networkId = 8453, provider = Some 1,
      signer = Some \<lparr>address = ''0x14791697260E4c9A71f18484C9f997B308e59325''\<rparr>\<rparr>
   = \<lparr>networkId = 8453, provider = Some 1,
      signer = Some \<lparr>address = ''0x14791697260E4c9A71f18484C9f997B308e59325''\<rparr>\<rparr>"
  using createSDK_frame [of rt0 "Inr fee0" 8453 s_good]
  by (simp add: setProvider_def s_good_eq)

lemma stringify_mock:
  \<open>signer sdk = Some \<lparr>address = ''0x14791697260E4c9A71f18484C9f997B308e59325''\<rparr> \<Longrightarrow>
   JSON_stringify rt0 (mock_transaction (\<lambda>i. ''8f3a1c2b4d5e6'') sdk g)
   = ''{"hash":"0x8f3a1c2b4d5e6","to":"0x8f3a1c2b4d5e6","from":"0x14791697260E4c9A71f18484C9f997B308e59325","gasLimit":"''
       @ g @ ''","gasPrice":"20000000000","value":"0"}''\<close>
  by (simp add: rt0_def mock_transaction_def)

text \<open>C2 on the configured server, network 8453, with the mock: the six tools.\<close>

theorem post_trade_refresh_only_when_placing_witness:
  \<open>exchange_calls (effects (snd (place_limit_order rt0 ex0 (Inr fee0) 8453 ''ETH_USDC'' BUY 1 2 s_good)))
     = [(''placeLimitOrder'', ''ETH_USDC''), (''updateKline'', ''ETH_USDC'')]
   \<and> fst (place_limit_order rt0 ex0 (Inr fee0) 8453 ''ETH_USDC'' BUY 1 2 s_good)
       = Inr ''{"hash":"0x8f3a1c2b4d5e6","to":"0x8f3a1c2b4d5e6","from":"0x14791697260E4c9A71f18484C9f997B308e59325","gasLimit":"200000","gasPrice":"20000000000","value":"0"}''
   \<and> exchange_calls
        (effects (snd (place_market_order rt0 ex0 (Inr fee0) 8453 ''ETH_USDC'' BUY 2 1 500 s_good)))
       = [(''placeMarketOrder'', ''ETH_USDC''), (''updateKline'', ''ETH_USDC'')]
   \<and> exchange_calls (effects (snd (cancel_limit_order rt0 ex0 (Inr fee0) 8453 ''ETH_USDC'' BUY 3 s_good)))
       = [(''cancelLimitOrder'', ''ETH_USDC'')]
   \<and> exchange_calls (effects (snd (cancel_all_limit_order rt0 ex0 (Inr fee0) 8453 ''ETH_USDC'' s_good)))
       = [(''cancelAllLimitOrder'', ''ETH_USDC'')]
   \<and> exchange_calls (effects (snd (claim_earning rt0 ex0 (Inr fee0) 8453 ''ETH_USDC'' BUY 3 s_good)))
       = [(''claimEarning'', ''ETH_USDC'')]
   \<and> exchange_calls (effects (snd (claim_all_earnings rt0 ex0 (Inr fee0) 8453 ''ETH_USDC'' s_good)))
       = [(''claimAllEarnings'', ''ETH_USDC'')]
   \<and> fst (claim_all_earnings rt0 ex0 (Inr fee0) 8453 ''ETH_USDC'' s_good)
       = Inr ''{"hash":"0x8f3a1c2b4d5e6","to":"0x8f3a1c2b4d5e6","from":"0x14791697260E4c9A71f18484C9f997B308e59325","gasLimit":"400000","gasPrice":"20000000000","value":"0"}''\<close>
proof -
  let ?sdk = "\<lparr>networkId = 8453, provider = Some 1,
               signer = Some \<lparr>address = ''0x14791697260E4c9A71f18484C9f997B308e59325''\<rparr>\<rparr>"
  let ?tx = "mock_transaction (\<lambda>i. ''8f3a1c2b4d5e6'') ?sdk"
  note T = post_trade_refresh_only_when_placing
             [where ex = ex0 and pairId = "''ETH_USDC''" and d = BUY and price = 1
                and volume = 2 and curPrice = 1 and slippage = 500 and point = 3
                and ?info1.0 = "?tx ''200000''" and ?info2.0 = "?tx ''300000''"
                and ?info3.0 = "?tx ''150000''" and ?info4.0 = "?tx ''500000''"
                and ?info5.0 = "?tx ''180000''" and ?info6.0 = "?tx ''400000''",
              OF session_good rebind_good [symmetric]]
  have e: "exchange_calls (effects s_good) = []"
    by (simp add: s_good_eq)
  have h: "placeLimitOrder ex0 ?sdk ''ETH_USDC'' BUY 1 2 = Inr (?tx ''200000'')"
    "placeMarketOrder ex0 ?sdk ''ETH_USDC'' BUY 2 1 500 = Inr (?tx ''300000'')"
    "cancelLimitOrder ex0 ?sdk ''ETH_USDC'' BUY 3 = Inr (?tx ''150000'')"
    "cancelAllLimitOrder ex0 ?sdk ''ETH_USDC'' = Inr (?tx ''500000'')"
    "claimEarning ex0 ?sdk ''ETH_USDC'' BUY 3 = Inr (?tx ''180000'')"
    "claimAllEarnings ex0 ?sdk ''ETH_USDC'' = Inr (?tx ''400000'')"
    "updateKline ex0 ?sdk ''ETH_USDC'' = Inr ()"
    by (simp_all add: ex0_def mock_exchange_def)
  from T h e show ?thesis
    by (simp add: stringify_mock)
qed

text \<open>
  C2 as stated fails in two ways. \<^verbatim>\<open>cancel_limit_order\<close> and \<^verbatim>\<open>claim_all_earnings\<close> return
  the transaction after the one call to the exchange client, with no timer and no
  refresh. \<^verbatim>\<open>place_limit_order\<close> sets a timer of 3000 ms and calls \<^verbatim>\<open>updateKline\<close> without
  having been held back: it awaits the object that \<^verbatim>\<open>setTimeout\<close> returns, where a promise
  resolved by the timer would have held it back for the 3000 ms.
\<close>

theorem no_refresh_when_cancelling_no_wait_when_placing:
  \<open>fst (cancel_limit_order rt0 ex0 (Inr fee0) 8453 ''ETH_USDC'' BUY 3 s_good)
     = Inr ''{"hash":"0x8f3a1c2b4d5e6","to":"0x8f3a1c2b4d5e6","from":"0x14791697260E4c9A71f18484C9f997B308e59325","gasLimit":"150000","gasPrice":"20000000000","value":"0"}''
   \<and> effects (snd (cancel_limit_order rt0 ex0 (Inr fee0) 8453 ''ETH_USDC'' BUY 3 s_good))
       = [ConsoleLog ''Config parsed from URL successfully'',
          ConsoleLog ''Providers initialized successfully'',
          ExchangeCall ''cancelLimitOrder'' ''ETH_USDC'']
   \<and> fst (claim_all_earnings rt0 ex0 (Inr fee0) 8453 ''ETH_USDC'' s_good)
       = Inr ''{"hash":"0x8f3a1c2b4d5e6","to":"0x8f3a1c2b4d5e6","from":"0x14791697260E4c9A71f18484C9f997B308e59325","gasLimit":"400000","gasPrice":"20000000000","value":"0"}''
   \<and> effects (snd (claim_all_earnings rt0 ex0 (Inr fee0) 8453 ''ETH_USDC'' s_good))
       = [ConsoleLog ''Config parsed from URL successfully'',
          ConsoleLog ''Providers initialized successfully'',
          ExchangeCall ''claimAllEarnings'' ''ETH_USDC'']
   \<and> fst (place_limit_order rt0 ex0 (Inr fee0) 8453 ''ETH_USDC'' BUY 1 2 s_good)
       = Inr ''{"hash":"0x8f3a1c2b4d5e6","to":"0x8f3a1c2b4d5e6","from":"0x14791697260E4c9A71f18484C9f997B308e59325","gasLimit":"200000","gasPrice":"20000000000","value":"0"}''
   \<and> effects (snd (place_limit_order rt0 ex0 (Inr fee0) 8453 ''ETH_USDC'' BUY 1 2 s_good))
       = [ConsoleLog ''Config parsed from URL successfully'',
          ConsoleLog ''Providers initialized successfully'',
          ExchangeCall ''placeLimitOrder'' ''ETH_USDC'', SetTimeout 3000,
          ExchangeCall ''updateKline'' ''ETH_USDC'']
   \<and> waited s_good = 0
   \<and> waited (snd (place_limit_order rt0 ex0 (Inr fee0) 8453 ''ETH_USDC'' BUY 1 2 s_good)) = 0
   \<and> waited (await_on (TimeoutPromise 3000) s_good) = 3000\<close>
proof -
  let ?sdk = "\<lparr>networkId = 8453, provider = Some 1,
               signer = Some \<lparr>address = ''0x14791697260E4c9A71f18484C9f997B308e59325''\<rparr>\<rparr>"
  let ?tx = "mock_transaction (\<lambda>i. ''8f3a1c2b4d5e6'') ?sdk"
  have a: "cancelLimitOrder ex0 ?sdk ''ETH_USDC'' BUY 3 = Inr (?tx ''150000'')"
    and b: "claimAllEarnings ex0 ?sdk ''ETH_USDC'' = Inr (?tx ''400000'')"
    and c: "placeLimitOrder ex0 ?sdk ''ETH_USDC'' BUY 1 2 = Inr (?tx ''200000'')"
    and u: "updateKline ex0 ?sdk ''ETH_USDC'' = Inr ()"
    by (simp_all add: ex0_def mock_exchange_def)
  have e: "effects s_good = [ConsoleLog ''Config parsed from URL successfully'',
                             ConsoleLog ''Providers initialized successfully'']"
    and w: "waited s_good = 0"
    by (simp_all add: s_good_eq)
  have d: "settle_delay 8453 = 3000"
    by (simp add: settle_delay_listed)
  have p: "waited (await_on (TimeoutPromise 3000) s_good) = 3000"
    by (simp add: await_on_def w)
  from cancel_limit_order_run [OF session_good rebind_good [symmetric] a]
    claim_all_earnings_run [OF session_good rebind_good [symmetric] b]
    place_limit_order_run [OF session_good rebind_good [symmetric] c]
    placing_waited [of rt0 ex0 "Inr fee0" 8453 "''ETH_USDC''" BUY 1 2 s_good]
    e w d u p
  show ?thesis
    by (simp add: stringify_mock)
qed

text \<open>
  C3, as the code has it. The two tools that refresh await \<^verbatim>\<open>updateKline\<close> with no
  \<^verbatim>\<open>catch\<close>: when the session is created and the order is placed, the tool returns the
  serialised transaction if the refresh returns, and rejects with the refresh's error if
  the refresh is rejected. The refresh of the bundled mock always returns.
\<close>

theorem refresh_outcome_is_tool_outcome:
  assumes "createSDK rt node nid s = (Inr sdk0, s1)"
    and "sdk = setProvider (map_of (PROVIDERS s1) nid) sdk0"
  shows "(placeLimitOrder ex sdk pairId d price volume = Inr info1 \<longrightarrow>
            fst (place_limit_order rt ex node nid pairId d price volume s)
              = (case updateKline ex sdk pairId of
                   Inl e \<Rightarrow> Inl e
                 | Inr u \<Rightarrow> Inr (JSON_stringify rt info1)))
         \<and> (placeMarketOrder ex sdk pairId d volume curPrice slippage = Inr info2 \<longrightarrow>
            fst (place_market_order rt ex node nid pairId d volume curPrice slippage s)
              = (case updateKline ex sdk pairId of
                   Inl e \<Rightarrow> Inl e
                 | Inr u \<Rightarrow> Inr (JSON_stringify rt info2)))
         \<and> updateKline (mock_exchange rnd) sdk pairId = Inr ()"
  using place_limit_order_run [OF assms, of ex pairId d price volume info1]
    place_market_order_run [OF assms, of ex pairId d volume curPrice slippage info2]
  by (simp add: mock_exchange_def)

text \<open>C3 on the configured server with the mock, whose refresh returns.\<close>

theorem refresh_outcome_is_tool_outcome_witness:
  \<open>fst (createSDK rt0 (Inr fee0) 8453 s_good)
     = Inr \<lparr>networkId = 8453, provider = Some 1,
            signer = Some \<lparr>address = ''0x14791697260E4c9A71f18484C9f997B308e59325''\<rparr>\<rparr>
   \<and> updateKline ex0
        \<lparr>networkId = 8453, provider = Some 1,
         signer = Some \<lparr>address = ''0x14791697260E4c9A71f18484C9f997B308e59325''\<rparr>\<rparr>
        ''ETH_USDC'' = Inr ()
   \<and> fst (place_limit_order rt0 ex0 (Inr fee0) 8453 ''ETH_USDC'' SELL 1 2 s_good)
       = Inr ''{"hash":"0x8f3a1c2b4d5e6","to":"0x8f3a1c2b4d5e6","from":"0x14791697260E4c9A71f18484C9f997B308e59325","gasLimit":"200000","gasPrice":"20000000000","value":"0"}''
   \<and> fst (place_market_order rt0 ex0 (Inr fee0) 8453 ''ETH_USDC'' SELL 2 1 500 s_good)
       = Inr ''{"hash":"0x8f3a1c2b4d5e6","to":"0x8f3a1c2b4d5e6","from":"0x14791697260E4c9A71f18484C9f997B308e59325","gasLimit":"300000","gasPrice":"20000000000","value":"0"}''\<close>
proof -
  let ?sdk = "\<lparr>networkId = 8453, provider = Some 1,
               signer = Some \<lparr>address = ''0x14791697260E4c9A71f18484C9f997B308e59325''\<rparr>\<rparr>"
  let ?tx = "mock_transaction (\<lambda>i. ''8f3a1c2b4d5e6'') ?sdk"
  note T = refresh_outcome_is_tool_outcome
             [where ex = ex0 and pairId = "''ETH_USDC''" and d = SELL and price = 1
                and volume = 2 and curPrice = 1 and slippage = 500
                and ?info1.0 = "?tx ''200000''" and ?info2.0 = "?tx ''300000''",
              OF session_good rebind_good [symmetric]]
  have h: "placeLimitOrder ex0 ?sdk ''ETH_USDC'' SELL 1 2 = Inr (?tx ''200000'')"
    "placeMarketOrder ex0 ?sdk ''ETH_USDC'' SELL 2 1 500 = Inr (?tx ''300000'')"
    "updateKline ex0 ?sdk ''ETH_USDC'' = Inr ()"
    by (simp_all add: ex0_def mock_exchange_def)
  have f: "fst (createSDK rt0 (Inr fee0) 8453 s_good) = Inr ?sdk"
    using session_good by (simp add: prod_eq_iff)
  from T h f show ?thesis
    by (simp add: stringify_mock)
qed

text \<open>
  C3 as stated fails: with a client whose \<^verbatim>\<open>placeLimitOrder\<close> returns the transaction and
  whose \<^verbatim>\<open>updateKline\<close> is rejected, \<^verbatim>\<open>place_limit_order\<close> rejects with the refresh's error.
\<close>

theorem refresh_failure_fails_the_tool:
  "placeLimitOrder ex_refresh_fails
      \<lparr>networkId = 8453, provider = Some 1,
       signer = Some \<lparr>address = ''0x14791697260E4c9A71f18484C9f997B308e59325''\<rparr>\<rparr>
      ''ETH_USDC'' BUY 1 2
     = Inr (mock_transaction (\<lambda>i. ''8f3a1c2b4d5e6'')
              \<lparr>networkId = 8453, provider = Some 1,
               signer = Some \<lparr>address = ''0x14791697260E4c9A71f18484C9f997B308e59325''\<rparr>\<rparr>
              ''200000'')
   \<and> fst (place_limit_order rt0 ex_refresh_fails (Inr fee0) 8453 ''ETH_USDC'' BUY 1 2 s_good)
       = Inl (Error ''kline refresh failed'')
   \<and> fst (place_market_order rt0 ex_refresh_fails (Inr fee0) 8453 ''ETH_USDC'' BUY 2 1 500 s_good)
       = Inl (Error ''kline refresh failed'')"
proof -
  let ?sdk = "\<lparr>networkId = 8453, provider = Some 1,
               signer = Some \<lparr>address = ''0x14791697260E4c9A71f18484C9f997B308e59325''\<rparr>\<rparr>"
  let ?tx = "mock_transaction (\<lambda>i. ''8f3a1c2b4d5e6'') ?sdk"
  have a: "placeLimitOrder ex_refresh_fails ?sdk ''ETH_USDC'' BUY 1 2 = Inr (?tx ''200000'')"
    and b: "placeMarketOrder ex_refresh_fails ?sdk ''ETH_USDC'' BUY 2 1 500 = Inr (?tx ''300000'')"
    and c: "updateKline ex_refresh_fails ?sdk ''ETH_USDC'' = Inl (Error ''kline refresh failed'')"
    by (simp_all add: ex_refresh_fails_def ex0_def mock_exchange_def)
  from place_limit_order_run [OF session_good rebind_good [symmetric] a]
    place_market_order_run [OF session_good rebind_good [symmetric] b] a c
  show ?thesis
    by simp
qed

end
